theory Spec2Isabelle
  imports Complex_Main
begin

section \<open>JavaScript strings\<close>

text \<open>
  Strings are modelled as Isabelle strings (lists of characters) standing for ASCII
  text. \<open>trim\<close> removes the ASCII white space characters (tab, line feed, vertical
  tab, form feed, carriage return, space) at both ends; \<open>toLowerCase\<close> and
  \<open>toUpperCase\<close> map the ASCII letters and leave every other character as it is.
\<close>

definition asciiUpper :: string where
  "asciiUpper = ''ABCDEFGHIJKLMNOPQRSTUVWXYZ''"

definition asciiLower :: string where
  "asciiLower = ''abcdefghijklmnopqrstuvwxyz''"

definition asciiDigits :: string where
  "asciiDigits = ''0123456789''"

definition isWhiteSpace :: "char \<Rightarrow> bool" where
  "isWhiteSpace c = (c \<in> set [CHR 0x09, CHR 0x0A, CHR 0x0B, CHR 0x0C, CHR 0x0D, CHR '' ''])"

definition trim :: "string \<Rightarrow> string" where
  "trim s = rev (dropWhile isWhiteSpace (rev (dropWhile isWhiteSpace s)))"

definition lowerChar :: "char \<Rightarrow> char" where
  "lowerChar c = (case map_of (zip asciiUpper asciiLower) c of Some d \<Rightarrow> d | None \<Rightarrow> c)"

definition upperChar :: "char \<Rightarrow> char" where
  "upperChar c = (case map_of (zip asciiLower asciiUpper) c of Some d \<Rightarrow> d | None \<Rightarrow> c)"

definition toLowerCase :: "string \<Rightarrow> string" where
  "toLowerCase s = map lowerChar s"

definition toUpperCase :: "string \<Rightarrow> string" where
  "toUpperCase s = map upperChar s"

text \<open>\<open>s.startsWith(p)\<close>.\<close>

fun startsWith :: "string \<Rightarrow> string \<Rightarrow> bool" where
  "startsWith s [] = True"
| "startsWith [] (p # ps) = False"
| "startsWith (c # cs) (p # ps) = (c = p \<and> startsWith cs ps)"

text \<open>\<open>value ?? ""\<close> on a value that may be \<open>undefined\<close> or \<open>null\<close>.\<close>

definition orEmpty :: "string option \<Rightarrow> string" where
  "orEmpty v = (case v of None \<Rightarrow> [] | Some s \<Rightarrow> s)"

section \<open>Session keys (src/routing/session-key.ts)\<close>

definition DEFAULT_AGENT_ID :: string where
  "DEFAULT_AGENT_ID = ''main''"

definition DEFAULT_MAIN_KEY :: string where
  "DEFAULT_MAIN_KEY = ''main''"

definition DEFAULT_ACCOUNT_ID :: string where
  "DEFAULT_ACCOUNT_ID = ''default''"

definition normalizeToken :: "string option \<Rightarrow> string" where
  "normalizeToken v = toLowerCase (trim (orEmpty v))"

definition normalizeMainKey :: "string option \<Rightarrow> string" where
  "normalizeMainKey v = (let trimmed = trim (orEmpty v) in
     if trimmed \<noteq> [] then trimmed else DEFAULT_MAIN_KEY)"

text \<open>The character class \<open>[a-z0-9_-]\<close>, and the same class under the \<open>i\<close> flag.\<close>

definition isIdChar :: "char \<Rightarrow> bool" where
  "isIdChar c = (c \<in> set asciiLower \<or> c \<in> set asciiDigits \<or> c = CHR ''_'' \<or> c = CHR ''-'')"

definition isIdCharI :: "char \<Rightarrow> bool" where
  "isIdCharI c = (c \<in> set asciiUpper \<or> isIdChar c)"

text \<open>The class \<open>[a-z0-9]\<close> under the \<open>i\<close> flag.\<close>

definition isAlnumI :: "char \<Rightarrow> bool" where
  "isAlnumI c = (c \<in> set asciiLower \<or> c \<in> set asciiUpper \<or> c \<in> set asciiDigits)"

text \<open>\<open>/^[a-z0-9][a-z0-9_-]{0,63}$/i.test(s)\<close>.\<close>

definition validIdRe :: "string \<Rightarrow> bool" where
  "validIdRe s = (case s of [] \<Rightarrow> False
     | c # cs \<Rightarrow> isAlnumI c \<and> length cs \<le> 63 \<and> list_all isIdCharI cs)"

text \<open>
  \<open>s.replace(/[^a-z0-9_-]+/g, "-")\<close>: every maximal run of characters outside the class
  becomes one \<open>-\<close>. The flag says whether the previous character was part of such a run.
\<close>

primrec collapseFrom :: "bool \<Rightarrow> string \<Rightarrow> string" where
  "collapseFrom inRun [] = []"
| "collapseFrom inRun (c # cs) =
     (if isIdChar c then c # collapseFrom False cs
      else if inRun then collapseFrom True cs
      else CHR ''-'' # collapseFrom True cs)"

definition collapseInvalid :: "string \<Rightarrow> string" where
  "collapseInvalid s = collapseFrom False s"

text \<open>\<open>s.replace(/^-+/, "")\<close> and \<open>s.replace(/-+$/, "")\<close>.\<close>

definition stripLeadingDashes :: "string \<Rightarrow> string" where
  "stripLeadingDashes s = dropWhile (\<lambda>c. c = CHR ''-'') s"

definition stripTrailingDashes :: "string \<Rightarrow> string" where
  "stripTrailingDashes s = rev (dropWhile (\<lambda>c. c = CHR ''-'') (rev s))"

text \<open>The fallback of \<open>normalizeAgentId\<close> and \<open>normalizeAccountId\<close>, before \<open>|| DEFAULT\<close>.\<close>

definition bestEffortId :: "string \<Rightarrow> string" where
  "bestEffortId trimmed =
     take 64 (stripTrailingDashes (stripLeadingDashes (collapseInvalid (toLowerCase trimmed))))"

definition normalizeAgentId :: "string option \<Rightarrow> string" where
  "normalizeAgentId v = (let trimmed = trim (orEmpty v) in
     if trimmed = [] then DEFAULT_AGENT_ID
     else if validIdRe trimmed then trimmed
     else (let r = bestEffortId trimmed in if r \<noteq> [] then r else DEFAULT_AGENT_ID))"

definition normalizeAccountId :: "string option \<Rightarrow> string" where
  "normalizeAccountId v = (let trimmed = trim (orEmpty v) in
     if trimmed = [] then DEFAULT_ACCOUNT_ID
     else if validIdRe trimmed then trimmed
     else (let r = bestEffortId trimmed in if r \<noteq> [] then r else DEFAULT_ACCOUNT_ID))"

text \<open>\<open>raw.split(":").filter(Boolean)\<close>: the non-empty segments between colons.\<close>

fun splitOn :: "char \<Rightarrow> string \<Rightarrow> string \<Rightarrow> string list" where
  "splitOn d acc [] = [rev acc]"
| "splitOn d acc (c # cs) = (if c = d then rev acc # splitOn d [] cs else splitOn d (c # acc) cs)"

definition splitColons :: "string \<Rightarrow> string list" where
  "splitColons raw = filter (\<lambda>p. p \<noteq> []) (splitOn CHR '':'' [] raw)"

fun joinWith :: "string \<Rightarrow> string list \<Rightarrow> string" where
  "joinWith sep [] = []"
| "joinWith sep [p] = p"
| "joinWith sep (p # q # ps) = p @ sep @ joinWith sep (q # ps)"

record ParsedAgentSessionKey =
  parsedAgentId :: string
  rest :: string

definition parseAgentSessionKey :: "string option \<Rightarrow> ParsedAgentSessionKey option" where
  "parseAgentSessionKey sessionKey = (let raw = trim (orEmpty sessionKey) in
     if raw = [] then None
     else (case splitColons raw of
         p0 # p1 # p2 # ps \<Rightarrow>
           if p0 \<noteq> ''agent'' then None
           else (let agentId = trim p1; rest = joinWith '':'' (p2 # ps) in
             if agentId = [] \<or> rest = [] then None
             else Some \<lparr>parsedAgentId = agentId, rest = rest\<rparr>)
       | _ \<Rightarrow> None))"

definition isSubagentSessionKey :: "string option \<Rightarrow> bool" where
  "isSubagentSessionKey sessionKey = (let raw = trim (orEmpty sessionKey) in
     if raw = [] then False
     else if startsWith (toLowerCase raw) ''subagent:'' then True
     else (case parseAgentSessionKey (Some raw) of
         None \<Rightarrow> False
       | Some parsed \<Rightarrow> startsWith (toLowerCase (rest parsed)) ''subagent:''))"

definition buildAgentMainSessionKey :: "string \<Rightarrow> string option \<Rightarrow> string" where
  "buildAgentMainSessionKey agentId mainKey =
     ''agent:'' @ normalizeAgentId (Some agentId) @ '':'' @ normalizeMainKey mainKey"

datatype PeerKind = Dm | Group | Channel

datatype DmScope = ScopeMain | PerPeer | PerChannelPeer

fun peerKindName :: "PeerKind \<Rightarrow> string" where
  "peerKindName Dm = ''dm''"
| "peerKindName Group = ''group''"
| "peerKindName Channel = ''channel''"

record PeerKeyParams =
  agentId :: string
  mainKey :: "string option"
  channel :: string
  peerKind :: "PeerKind option"
  peerId :: "string option"
  dmScope :: "DmScope option"

text \<open>\<open>x || "unknown"\<close>.\<close>

definition orUnknown :: "string \<Rightarrow> string" where
  "orUnknown s = (if s \<noteq> [] then s else ''unknown'')"

definition buildAgentPeerSessionKey :: "PeerKeyParams \<Rightarrow> string" where
  "buildAgentPeerSessionKey params =
     (let pk = (case peerKind params of None \<Rightarrow> Dm | Some k \<Rightarrow> k) in
      if pk = Dm then
        (let scope = (case dmScope params of None \<Rightarrow> ScopeMain | Some s \<Rightarrow> s);
             pid = trim (orEmpty (peerId params)) in
         if scope = PerChannelPeer \<and> pid \<noteq> [] then
           (let ch = orUnknown (toLowerCase (trim (channel params))) in
            ''agent:'' @ normalizeAgentId (Some (agentId params)) @ '':'' @ ch @ '':dm:'' @ pid)
         else if scope = PerPeer \<and> pid \<noteq> [] then
           ''agent:'' @ normalizeAgentId (Some (agentId params)) @ '':dm:'' @ pid
         else buildAgentMainSessionKey (agentId params) (mainKey params))
      else
        (let ch = orUnknown (toLowerCase (trim (channel params)));
             pid = orUnknown (trim (orEmpty (peerId params))) in
         ''agent:'' @ normalizeAgentId (Some (agentId params)) @ '':'' @ ch @ '':''
           @ peerKindName pk @ '':'' @ pid))"

section \<open>Cron schedules (computeNextRunAtMs)\<close>

text \<open>
  JavaScript numbers are modelled as reals: millisecond timestamps and intervals are
  finite, and \<open>Math.floor\<close> is the floor function. \<open>NaN\<close> and the infinities are
  outside the model. The parser of absolute times (\<open>parseAbsoluteTimeMs\<close>) and the
  cron expression evaluator (\<open>croner\<close>) are parameters of \<open>computeNextRunAtMs\<close>.
\<close>

definition Math_floor :: "real \<Rightarrow> real" where
  "Math_floor x = of_int \<lfloor>x\<rfloor>"

datatype AtMs = AtMsNumber real | AtMsString string

datatype CronSchedule =
    At "string option" "AtMs option"
  | Every real "real option"
  | CronExpr string "string option"

text \<open>The \<open>at\<close> branch: the legacy numeric \<open>atMs\<close>, a string \<open>atMs\<close>, or \<open>at\<close>.\<close>

definition resolveAtMs :: "(string \<Rightarrow> real option) \<Rightarrow> string option \<Rightarrow> AtMs option \<Rightarrow> real option" where
  "resolveAtMs parseAbsoluteTimeMs atStr atMs =
     (case atMs of
        Some (AtMsNumber n) \<Rightarrow>
          (if n > 0 then Some n
           else (case atStr of Some s \<Rightarrow> parseAbsoluteTimeMs s | None \<Rightarrow> None))
      | Some (AtMsString s) \<Rightarrow> parseAbsoluteTimeMs s
      | None \<Rightarrow> (case atStr of Some s \<Rightarrow> parseAbsoluteTimeMs s | None \<Rightarrow> None))"

text \<open>The \<open>every\<close> branch.\<close>

definition everyNextRunAtMs :: "real \<Rightarrow> real option \<Rightarrow> real \<Rightarrow> real" where
  "everyNextRunAtMs everyMsRaw anchorMs nowMs =
     (let everyMs = max 1 (Math_floor everyMsRaw);
          anchor = max 0 (Math_floor (case anchorMs of None \<Rightarrow> nowMs | Some a \<Rightarrow> a)) in
      if nowMs < anchor then anchor
      else (let elapsed = nowMs - anchor;
                steps = max 1 (Math_floor ((elapsed + everyMs - 1) / everyMs)) in
            anchor + steps * everyMs))"

text \<open>
  The cron expression branch: up to three attempts, moving the cursor one second forward
  after each result that is not in the future.
\<close>

primrec cronAttempts :: "(real \<Rightarrow> real option) \<Rightarrow> real \<Rightarrow> real \<Rightarrow> nat \<Rightarrow> real option" where
  "cronAttempts nextRun nowMs cursor 0 = None"
| "cronAttempts nextRun nowMs cursor (Suc n) =
     (case nextRun cursor of
        None \<Rightarrow> None
      | Some nextMs \<Rightarrow>
          if nextMs > nowMs then Some nextMs
          else cronAttempts nextRun nowMs (cursor + 1000) n)"

definition computeNextRunAtMs ::
  "(string \<Rightarrow> real option) \<Rightarrow> (string \<Rightarrow> string option \<Rightarrow> real \<Rightarrow> real option)
     \<Rightarrow> CronSchedule \<Rightarrow> real \<Rightarrow> real option" where
  "computeNextRunAtMs parseAbsoluteTimeMs cronNextRun schedule nowMs =
     (case schedule of
        At atStr atMs \<Rightarrow>
          (case resolveAtMs parseAbsoluteTimeMs atStr atMs of
             None \<Rightarrow> None
           | Some t \<Rightarrow> if t > nowMs then Some t else None)
      | Every everyMs anchorMs \<Rightarrow> Some (everyNextRunAtMs everyMs anchorMs nowMs)
      | CronExpr expr tz \<Rightarrow>
          (if trim expr = [] then None
           else cronAttempts (cronNextRun (trim expr) tz) nowMs nowMs 3))"

section \<open>Cron timer (findDueJobs, onTimer)\<close>

record CronJobState =
  runningAtMs :: "real option"
  nextRunAtMs :: "real option"
  lastRunAtMs :: "real option"
  lastStatus :: "string option"
  lastDurationMs :: "real option"
  lastError :: "string option"

record CronJob =
  jobId :: string
  enabled :: bool
  schedule :: CronSchedule
  deleteAfterRun :: bool
  state :: CronJobState

text \<open>The predicate of the filter in \<open>findDueJobs\<close>.\<close>

definition isDue :: "real \<Rightarrow> CronJob \<Rightarrow> bool" where
  "isDue now j =
     (if \<not> enabled j then False
      else if runningAtMs (state j) \<noteq> None then False
      else (case nextRunAtMs (state j) of None \<Rightarrow> False | Some next \<Rightarrow> now \<ge> next))"

text \<open>\<open>state.store\<close> may be missing; \<open>now\<close> is the reading of \<open>state.deps.nowMs()\<close>.\<close>

definition findDueJobs :: "CronJob list option \<Rightarrow> real \<Rightarrow> CronJob list" where
  "findDueJobs store now =
     (case store of None \<Rightarrow> [] | Some jobs \<Rightarrow> filter (isDue now) jobs)"

text \<open>
  The first critical section of \<open>onTimer\<close> when some job is due: every due job gets
  \<open>runningAtMs = now\<close> (a second clock reading) and its \<open>lastError\<close> cleared, and the
  store is persisted. The jobs are objects shared between the due list and the store, so
  the store holds the marked jobs.
\<close>

definition markRunning :: "real \<Rightarrow> CronJob \<Rightarrow> CronJob" where
  "markRunning now j = j\<lparr>state := (state j)\<lparr>runningAtMs := Some now, lastError := None\<rparr>\<rparr>"

definition markDueJobs :: "CronJob list \<Rightarrow> real \<Rightarrow> real \<Rightarrow> CronJob list" where
  "markDueJobs jobs tick now = map (\<lambda>j. if isDue tick j then markRunning now j else j) jobs"

text \<open>Three jobs for the examples: idle and due, already running, and due later.\<close>

definition idleState :: CronJobState where
  "idleState = \<lparr>runningAtMs = None, nextRunAtMs = Some 100, lastRunAtMs = None,
     lastStatus = None, lastDurationMs = None, lastError = None\<rparr>"

definition jobA :: CronJob where
  "jobA = \<lparr>jobId = ''a'', enabled = True, schedule = Every 1000 None, deleteAfterRun = False,
     state = idleState\<rparr>"

definition jobB :: CronJob where
  "jobB = \<lparr>jobId = ''b'', enabled = True, schedule = Every 1000 None, deleteAfterRun = False,
     state = idleState\<lparr>runningAtMs := Some 50\<rparr>\<rparr>"

definition jobC :: CronJob where
  "jobC = \<lparr>jobId = ''c'', enabled = True, schedule = Every 1000 None, deleteAfterRun = False,
     state = idleState\<lparr>nextRunAtMs := Some 250\<rparr>\<rparr>"

section \<open>Host environment sanitising (infra/host-env-security)\<close>

text \<open>
  The blocked keys and prefixes are read from the JSON policy file
  \<open>host-env-security-policy.json\<close>; the policy is a parameter. Objects are modelled
  by the list of their entries in the order of \<open>Object.entries\<close> when they are read,
  and as a finite map when they are written.
\<close>

record HostEnvSecurityPolicy =
  blockedKeys :: "string list"
  blockedPrefixes :: "string list"

definition HOST_DANGEROUS_ENV_KEY_VALUES :: "HostEnvSecurityPolicy \<Rightarrow> string list" where
  "HOST_DANGEROUS_ENV_KEY_VALUES policy = map toUpperCase (blockedKeys policy)"

definition HOST_DANGEROUS_ENV_PREFIXES :: "HostEnvSecurityPolicy \<Rightarrow> string list" where
  "HOST_DANGEROUS_ENV_PREFIXES policy = map toUpperCase (blockedPrefixes policy)"

text \<open>\<open>PORTABLE_ENV_VAR_KEY = /^[A-Za-z_][A-Za-z0-9_]*$/\<close>.\<close>

definition isKeyStartChar :: "char \<Rightarrow> bool" where
  "isKeyStartChar c = (c \<in> set asciiUpper \<or> c \<in> set asciiLower \<or> c = CHR ''_'')"

definition isKeyChar :: "char \<Rightarrow> bool" where
  "isKeyChar c = (isKeyStartChar c \<or> c \<in> set asciiDigits)"

definition PORTABLE_ENV_VAR_KEY :: "string \<Rightarrow> bool" where
  "PORTABLE_ENV_VAR_KEY s = (case s of [] \<Rightarrow> False
     | c # cs \<Rightarrow> isKeyStartChar c \<and> list_all isKeyChar cs)"

definition normalizeEnvVarKey :: "string \<Rightarrow> bool \<Rightarrow> string option" where
  "normalizeEnvVarKey rawKey portable = (let key = trim rawKey in
     if key = [] then None
     else if portable \<and> \<not> PORTABLE_ENV_VAR_KEY key then None
     else Some key)"

definition isDangerousHostEnvVarName :: "HostEnvSecurityPolicy \<Rightarrow> string \<Rightarrow> bool" where
  "isDangerousHostEnvVarName policy rawKey =
     (case normalizeEnvVarKey rawKey False of
        None \<Rightarrow> False
      | Some key \<Rightarrow> (let upper = toUpperCase key in
          if upper \<in> set (HOST_DANGEROUS_ENV_KEY_VALUES policy) then True
          else list_ex (\<lambda>prefix. startsWith upper prefix) (HOST_DANGEROUS_ENV_PREFIXES policy)))"

text \<open>
  \<open>merged[key] = value\<close> on the object literal \<open>{}\<close>: an own property is created or
  overwritten, except for the key \<open>__proto__\<close>, where the assignment of a string goes
  to the prototype setter and leaves the object without such a property.
\<close>

definition setProp :: "(string \<rightharpoonup> string) \<Rightarrow> string \<Rightarrow> string \<Rightarrow> (string \<rightharpoonup> string)" where
  "setProp merged key v = (if key = ''__proto__'' then merged else merged(key \<mapsto> v))"

text \<open>The body of the loop over the base environment; a value may be \<open>undefined\<close>.\<close>

definition baseStep ::
  "HostEnvSecurityPolicy \<Rightarrow> string \<times> string option \<Rightarrow> (string \<rightharpoonup> string) \<Rightarrow> (string \<rightharpoonup> string)" where
  "baseStep policy entry merged =
     (case snd entry of
        None \<Rightarrow> merged
      | Some v \<Rightarrow>
          (case normalizeEnvVarKey (fst entry) True of
             None \<Rightarrow> merged
           | Some key \<Rightarrow>
               if isDangerousHostEnvVarName policy key then merged
               else setProp merged key v))"

text \<open>The body of the loop over the overrides.\<close>

definition overrideStep ::
  "HostEnvSecurityPolicy \<Rightarrow> bool \<Rightarrow> string \<times> string \<Rightarrow> (string \<rightharpoonup> string) \<Rightarrow> (string \<rightharpoonup> string)" where
  "overrideStep policy blockPathOverrides entry merged =
     (case normalizeEnvVarKey (fst entry) True of
        None \<Rightarrow> merged
      | Some key \<Rightarrow> (let upper = toUpperCase key in
          if blockPathOverrides \<and> upper = ''PATH'' then merged
          else if isDangerousHostEnvVarName policy upper then merged
          else setProp merged key (snd entry)))"

definition sanitizeHostExecEnv ::
  "HostEnvSecurityPolicy \<Rightarrow> (string \<times> string option) list \<Rightarrow> (string \<times> string) list option
     \<Rightarrow> bool option \<Rightarrow> (string \<rightharpoonup> string)" where
  "sanitizeHostExecEnv policy baseEnv overrides blockPathOverridesOpt =
     (let blockPathOverrides = (case blockPathOverridesOpt of None \<Rightarrow> True | Some b \<Rightarrow> b);
          merged = fold (baseStep policy) baseEnv Map.empty in
      case overrides of
        None \<Rightarrow> merged
      | Some entries \<Rightarrow> fold (overrideStep policy blockPathOverrides) entries merged)"

text \<open>A policy for the examples, with keys and prefixes named in the tests.\<close>

definition examplePolicy :: HostEnvSecurityPolicy where
  "examplePolicy = \<lparr>blockedKeys = [''BASH_ENV'', ''LD_PRELOAD''],
     blockedPrefixes = [''DYLD_'', ''BASH_FUNC_'']\<rparr>"

section \<open>Model selection (agents/model-selection.ts)\<close>

record ModelRef =
  refProvider :: string
  refModel :: string

record ModelCatalogEntry =
  provider :: string
  entryId :: string
  reasoning :: bool

text \<open>
  The part of the configuration read here: the entries of \<open>cfg.agent.models\<close> (model
  key and optional alias, empty when missing) and \<open>cfg.agent.model\<close>, a string or an
  object with an optional \<open>primary\<close>.
\<close>

datatype AgentModel = ModelName string | ModelObject "string option"

record ClawdbotConfig =
  agentModels :: "(string \<times> string option) list"
  agentModel :: "AgentModel option"

definition normalizeAliasKey :: "string \<Rightarrow> string" where
  "normalizeAliasKey v = toLowerCase (trim v)"

definition modelKey :: "string \<Rightarrow> string \<Rightarrow> string" where
  "modelKey p m = p @ ''/'' @ m"

definition normalizeProviderId :: "string \<Rightarrow> string" where
  "normalizeProviderId p = (let normalized = toLowerCase (trim p) in
     if normalized = ''z.ai'' \<or> normalized = ''z-ai'' then ''zai'' else normalized)"

text \<open>\<open>s.indexOf("/")\<close>, with \<open>None\<close> for \<open>-1\<close>.\<close>

fun indexOfSlash :: "string \<Rightarrow> nat option" where
  "indexOfSlash [] = None"
| "indexOfSlash (c # cs) =
     (if c = CHR ''/'' then Some 0 else map_option Suc (indexOfSlash cs))"

definition parseModelRef :: "string \<Rightarrow> string \<Rightarrow> ModelRef option" where
  "parseModelRef raw defaultProvider = (let trimmed = trim raw in
     if trimmed = [] then None
     else (case indexOfSlash trimmed of
         None \<Rightarrow> Some \<lparr>refProvider = normalizeProviderId defaultProvider, refModel = trimmed\<rparr>
       | Some slash \<Rightarrow>
           (let providerRaw = trim (take slash trimmed);
                p = normalizeProviderId providerRaw;
                m = trim (drop (slash + 1) trimmed) in
            if p = [] \<or> m = [] then None
            else Some \<lparr>refProvider = p, refModel = m\<rparr>)))"

text \<open>The locals of \<open>buildAllowedModelSet\<close>.\<close>

definition defaultKeyOf :: "string \<Rightarrow> string option \<Rightarrow> string option" where
  "defaultKeyOf defaultProvider defaultModel =
     (case defaultModel of
        None \<Rightarrow> None
      | Some dm \<Rightarrow> (let m = trim dm in
          if m \<noteq> [] \<and> defaultProvider \<noteq> [] then Some (modelKey defaultProvider m) else None))"

definition catalogKeysOf :: "ModelCatalogEntry list \<Rightarrow> string set" where
  "catalogKeysOf catalog = set (map (\<lambda>entry. modelKey (provider entry) (entryId entry)) catalog)"

text \<open>\<open>if (defaultKey) keys.add(defaultKey)\<close>.\<close>

definition addDefault :: "string option \<Rightarrow> string set \<Rightarrow> string set" where
  "addDefault defaultKey keys = (case defaultKey of None \<Rightarrow> keys | Some k \<Rightarrow> insert k keys)"

text \<open>The loop over the allowlist: the parsed entries that the catalog knows.\<close>

definition validatedKeys :: "string list \<Rightarrow> string \<Rightarrow> string set \<Rightarrow> string set" where
  "validatedKeys rawAllowlist defaultProvider catalogKeys =
     fold (\<lambda>raw allowedKeys.
        case parseModelRef raw defaultProvider of
          None \<Rightarrow> allowedKeys
        | Some parsed \<Rightarrow>
            (let key = modelKey (refProvider parsed) (refModel parsed) in
             if key \<in> catalogKeys then insert key allowedKeys else allowedKeys))
       rawAllowlist {}"

record AllowedModelSet =
  allowAny :: bool
  allowedCatalog :: "ModelCatalogEntry list"
  allowedKeys :: "string set"

definition buildAllowedModelSet ::
  "ClawdbotConfig \<Rightarrow> ModelCatalogEntry list \<Rightarrow> string \<Rightarrow> string option \<Rightarrow> AllowedModelSet" where
  "buildAllowedModelSet cfg catalog defaultProvider defaultModel =
     (let rawAllowlist = map fst (agentModels cfg);
          defaultKey = defaultKeyOf defaultProvider defaultModel;
          catalogKeys = catalogKeysOf catalog in
      if rawAllowlist = [] then
        \<lparr>allowAny = True, allowedCatalog = catalog, allowedKeys = addDefault defaultKey catalogKeys\<rparr>
      else
        (let keys = addDefault defaultKey (validatedKeys rawAllowlist defaultProvider catalogKeys);
             kept = filter (\<lambda>entry. modelKey (provider entry) (entryId entry) \<in> keys) catalog in
         if kept = [] then
           \<lparr>allowAny = True, allowedCatalog = catalog,
            allowedKeys = addDefault defaultKey catalogKeys\<rparr>
         else \<lparr>allowAny = False, allowedCatalog = kept, allowedKeys = keys\<rparr>))"

text \<open>The invariant of both loops of \<open>sanitizeHostExecEnv\<close>.\<close>

definition safeEnv :: "HostEnvSecurityPolicy \<Rightarrow> (string \<rightharpoonup> string) \<Rightarrow> bool" where
  "safeEnv policy m = (\<forall>k \<in> dom m. \<not> isDangerousHostEnvVarName policy k)"

text \<open>The environment and the overrides of the second test of \<open>sanitizeHostExecEnv\<close>.\<close>

definition exampleBaseEnv :: "(string \<times> string option) list" where
  "exampleBaseEnv = [(''PATH'', Some ''/usr/bin:/bin''), (''HOME'', Some ''/tmp/home'')]"

definition exampleOverrides :: "(string \<times> string) list" where
  "exampleOverrides = [(''PATH'', ''/tmp/evil''), (''BASH_ENV'', ''/tmp/pwn.sh''), (''SAFE'', ''ok'')]"

text \<open>A catalog and two allowlists for the examples of \<open>buildAllowedModelSet\<close>.\<close>

definition gptCatalog :: "ModelCatalogEntry list" where
  "gptCatalog = [\<lparr>provider = ''openai'', entryId = ''gpt-4'', reasoning = False\<rparr>,
     \<lparr>provider = ''openai'', entryId = ''gpt-3.5'', reasoning = False\<rparr>]"

definition gptOnlyConfig :: ClawdbotConfig where
  "gptOnlyConfig = \<lparr>agentModels = [(''openai/gpt-4'', Some ''gpt4'')], agentModel = None\<rparr>"

definition unknownOnlyConfig :: ClawdbotConfig where
  "unknownOnlyConfig = \<lparr>agentModels = [(''openai/gpt-5'', None)], agentModel = None\<rparr>"

section \<open>Model aliases (agents/model-selection.ts)\<close>

record ModelAliasIndex =
  byAlias :: "string \<rightharpoonup> (string \<times> ModelRef)"
  byKey :: "string \<rightharpoonup> string list"

text \<open>The loop body of \<open>buildModelAliasIndex\<close>; a missing alias reads as the empty string.\<close>

definition aliasStep :: "string \<Rightarrow> string \<times> string option \<Rightarrow> ModelAliasIndex \<Rightarrow> ModelAliasIndex" where
  "aliasStep defaultProvider entry idx =
     (case parseModelRef (fst entry) defaultProvider of
        None \<Rightarrow> idx
      | Some parsed \<Rightarrow> (let aliasName = trim (orEmpty (snd entry)) in
          if aliasName = [] then idx
          else (let aliasKey = normalizeAliasKey aliasName;
                    key = modelKey (refProvider parsed) (refModel parsed);
                    existing = (case byKey idx key of None \<Rightarrow> [] | Some xs \<Rightarrow> xs) in
                idx\<lparr>byAlias := (byAlias idx)(aliasKey \<mapsto> (aliasName, parsed)),
                    byKey := (byKey idx)(key \<mapsto> existing @ [aliasName])\<rparr>)))"

definition buildModelAliasIndex :: "ClawdbotConfig \<Rightarrow> string \<Rightarrow> ModelAliasIndex" where
  "buildModelAliasIndex cfg defaultProvider =
     fold (aliasStep defaultProvider) (agentModels cfg) \<lparr>byAlias = Map.empty, byKey = Map.empty\<rparr>"

text \<open>The result is the reference and, when an alias matched, the alias.\<close>

definition resolveModelRefFromString ::
  "string \<Rightarrow> string \<Rightarrow> ModelAliasIndex option \<Rightarrow> (ModelRef \<times> string option) option" where
  "resolveModelRefFromString raw defaultProvider aliasIndex = (let trimmed = trim raw in
     if trimmed = [] then None
     else (case (if CHR ''/'' \<notin> set trimmed
                 then (case aliasIndex of None \<Rightarrow> None
                       | Some idx \<Rightarrow> byAlias idx (normalizeAliasKey trimmed))
                 else None) of
         Some aliasMatch \<Rightarrow> Some (snd aliasMatch, Some (fst aliasMatch))
       | None \<Rightarrow>
           (case parseModelRef trimmed defaultProvider of
              None \<Rightarrow> None
            | Some parsed \<Rightarrow> Some (parsed, None))))"

definition resolveConfiguredModelRef :: "ClawdbotConfig \<Rightarrow> string \<Rightarrow> string \<Rightarrow> ModelRef" where
  "resolveConfiguredModelRef cfg defaultProvider defaultModel =
     (let rawModel = (case agentModel cfg of
            Some (ModelName raw) \<Rightarrow> trim raw
          | Some (ModelObject (Some primary)) \<Rightarrow> trim primary
          | Some (ModelObject None) \<Rightarrow> []
          | None \<Rightarrow> []) in
      if rawModel \<noteq> [] then
        (let trimmed = trim rawModel;
             aliasIndex = buildModelAliasIndex cfg defaultProvider in
         case resolveModelRefFromString trimmed defaultProvider (Some aliasIndex) of
           Some resolved \<Rightarrow> fst resolved
         | None \<Rightarrow> \<lparr>refProvider = ''anthropic'', refModel = trimmed\<rparr>)
      else \<lparr>refProvider = defaultProvider, refModel = defaultModel\<rparr>)"

section \<open>Session store handlers (gateway sessions.patch and sessions.reset)\<close>

text \<open>
  A session entry with the fields the two handlers read or write. The skills snapshot is
  an opaque value. A store is the content of one store file, a finite map from session
  keys to entries.
\<close>

record SessionEntry =
  sessionId :: string
  updatedAt :: "real option"
  systemSent :: "bool option"
  abortedLastRun :: "bool option"
  thinkingLevel :: "string option"
  verboseLevel :: "string option"
  reasoningLevel :: "string option"
  responseUsage :: "string option"
  model :: "string option"
  contextTokens :: "real option"
  sendPolicy :: "string option"
  lastProvider :: "string option"
  lastTo :: "string option"
  skillsSnapshot :: "string option"
  spawnedBy :: "string option"
  providerOverride :: "string option"
  modelOverride :: "string option"
  groupActivation :: "string option"
  inputTokens :: "real option"
  outputTokens :: "real option"
  totalTokens :: "real option"

type_synonym SessionStore = "string \<rightharpoonup> SessionEntry"

text \<open>
  A property of the request object: not present (\<open>"x" in p\<close> is false), present with
  the value \<open>undefined\<close>, \<open>null\<close>, or a value.
\<close>

datatype 'a Field = Absent | Undefined | Null | Val 'a

record SessionsPatchParams =
  patchKey :: "string option"
  patchSpawnedBy :: "string Field"
  patchThinkingLevel :: "string Field"
  patchVerboseLevel :: "string Field"
  patchReasoningLevel :: "string Field"
  patchResponseUsage :: "string Field"
  patchModel :: "string Field"
  patchSendPolicy :: "string Field"
  patchGroupActivation :: "string Field"

text \<open>
  What the handlers take from other modules and from the outside: the verdict of the
  parameter validator, the configuration, the store target resolved for the key, the
  clock, the UUID drawn by \<open>randomUUID()\<close>, the model catalog, the default provider and
  model, and the normalisers of the level fields.
\<close>

record SessionStoreTarget =
  storePath :: string
  storeKeys :: "string list"
  canonicalKey :: string

record GatewayEnv =
  paramsValid :: bool
  validationErrors :: string
  loadConfig :: ClawdbotConfig
  resolveGatewaySessionStoreTarget :: "string \<Rightarrow> SessionStoreTarget"
  Date_now :: real
  randomUUID :: string
  loadGatewayModelCatalog :: "ModelCatalogEntry list"
  DEFAULT_PROVIDER :: string
  DEFAULT_MODEL :: string
  normalizeThinkLevel :: "string \<Rightarrow> string option"
  normalizeVerboseLevel :: "string \<Rightarrow> string option"
  normalizeReasoningLevel :: "string \<Rightarrow> string option"
  normalizeUsageDisplay :: "string \<Rightarrow> string option"
  normalizeSendPolicy :: "string \<Rightarrow> string option"
  normalizeGroupActivation :: "string \<Rightarrow> string option"

datatype ErrorCode = INVALID_REQUEST | UNAVAILABLE

text \<open>The arguments of \<open>respond\<close>: an error shape, or the result of a patch or a reset.\<close>

datatype Response =
    Failure ErrorCode string
  | Patched string string SessionEntry
  | ResetDone string SessionEntry

text \<open>\<open>target.storeKeys[0] ?? key\<close>.\<close>

definition primaryKeyOf :: "SessionStoreTarget \<Rightarrow> string \<Rightarrow> string" where
  "primaryKeyOf target key = (case storeKeys target of [] \<Rightarrow> key | k # ks \<Rightarrow> k)"

text \<open>
  The entry stored under a legacy key moves to the primary key when the primary key has
  none. An empty string is falsy, so an empty existing key moves nothing.
\<close>

definition migrateToPrimary :: "SessionStoreTarget \<Rightarrow> string \<Rightarrow> SessionStore \<Rightarrow> SessionStore" where
  "migrateToPrimary target key store =
     (let primaryKey = primaryKeyOf target key in
      case find (\<lambda>candidate. store candidate \<noteq> None) (storeKeys target) of
        None \<Rightarrow> store
      | Some existingKey \<Rightarrow>
          if existingKey \<noteq> [] \<and> existingKey \<noteq> primaryKey \<and> store primaryKey = None
          then (store(primaryKey := store existingKey))(existingKey := None)
          else store)"

text \<open>\<open>existing?.spawnedBy\<close> as a condition: set and not the empty string.\<close>

definition truthy :: "string option \<Rightarrow> bool" where
  "truthy v = (case v of None \<Rightarrow> False | Some s \<Rightarrow> s \<noteq> [])"

definition patchSpawnedByStep ::
  "string Field \<Rightarrow> string \<Rightarrow> SessionEntry option \<Rightarrow> SessionEntry \<Rightarrow> string + SessionEntry" where
  "patchSpawnedByStep field primaryKey existing next =
     (case field of
        Absent \<Rightarrow> Inr next
      | Undefined \<Rightarrow> Inr next
      | Null \<Rightarrow>
          (if (case existing of None \<Rightarrow> False | Some e \<Rightarrow> truthy (spawnedBy e))
           then Inl ''spawnedBy cannot be cleared once set''
           else Inr next)
      | Val raw \<Rightarrow> (let trimmed = trim raw in
          if trimmed = [] then Inl ''invalid spawnedBy: empty''
          else if \<not> isSubagentSessionKey (Some primaryKey)
            then Inl ''spawnedBy is only supported for subagent:* sessions''
          else if (case existing of None \<Rightarrow> False
                   | Some e \<Rightarrow> truthy (spawnedBy e) \<and> spawnedBy e \<noteq> Some trimmed)
            then Inl ''spawnedBy cannot be changed once set''
          else Inr (next\<lparr>spawnedBy := Some trimmed\<rparr>)))"

text \<open>
  The four level fields share one shape: \<open>null\<close> deletes, a value is normalised, an
  unknown value is an error, \<open>off\<close> deletes and every other level is stored.
\<close>

definition patchLevelStep ::
  "string Field \<Rightarrow> (string \<Rightarrow> string option) \<Rightarrow> string
     \<Rightarrow> (string option \<Rightarrow> SessionEntry \<Rightarrow> SessionEntry) \<Rightarrow> SessionEntry \<Rightarrow> string + SessionEntry" where
  "patchLevelStep field normalizer message setField next =
     (case field of
        Absent \<Rightarrow> Inr next
      | Undefined \<Rightarrow> Inr next
      | Null \<Rightarrow> Inr (setField None next)
      | Val raw \<Rightarrow>
          (case normalizer raw of
             None \<Rightarrow> Inl message
           | Some normalized \<Rightarrow>
               if normalized = ''off'' then Inr (setField None next)
               else Inr (setField (Some normalized) next)))"

text \<open>\<open>sendPolicy\<close> and \<open>groupActivation\<close>: as above, without the \<open>off\<close> case.\<close>

definition patchPolicyStep ::
  "string Field \<Rightarrow> (string \<Rightarrow> string option) \<Rightarrow> string
     \<Rightarrow> (string option \<Rightarrow> SessionEntry \<Rightarrow> SessionEntry) \<Rightarrow> SessionEntry \<Rightarrow> string + SessionEntry" where
  "patchPolicyStep field normalizer message setField next =
     (case field of
        Absent \<Rightarrow> Inr next
      | Undefined \<Rightarrow> Inr next
      | Null \<Rightarrow> Inr (setField None next)
      | Val raw \<Rightarrow>
          (case normalizer raw of
             None \<Rightarrow> Inl message
           | Some normalized \<Rightarrow> Inr (setField (Some normalized) next)))"

definition patchModelStep :: "GatewayEnv \<Rightarrow> string Field \<Rightarrow> SessionEntry \<Rightarrow> string + SessionEntry" where
  "patchModelStep env field next =
     (case field of
        Absent \<Rightarrow> Inr next
      | Undefined \<Rightarrow> Inr next
      | Null \<Rightarrow> Inr (next\<lparr>providerOverride := None, modelOverride := None\<rparr>)
      | Val raw \<Rightarrow> (let trimmed = trim raw in
          if trimmed = [] then Inl ''invalid model: empty''
          else (let resolvedDefault =
                      resolveConfiguredModelRef (loadConfig env) (DEFAULT_PROVIDER env) (DEFAULT_MODEL env);
                    aliasIndex = buildModelAliasIndex (loadConfig env) (refProvider resolvedDefault) in
            case resolveModelRefFromString trimmed (refProvider resolvedDefault) (Some aliasIndex) of
              None \<Rightarrow> Inl (''invalid model: '' @ trimmed)
            | Some resolved \<Rightarrow>
                (let allowed = buildAllowedModelSet (loadConfig env) (loadGatewayModelCatalog env)
                       (refProvider resolvedDefault) (Some (refModel resolvedDefault));
                     key = modelKey (refProvider (fst resolved)) (refModel (fst resolved)) in
                 if \<not> allowAny allowed \<and> key \<notin> allowedKeys allowed
                   then Inl (''model not allowed: '' @ key)
                 else if refProvider (fst resolved) = refProvider resolvedDefault
                      \<and> refModel (fst resolved) = refModel resolvedDefault
                   then Inr (next\<lparr>providerOverride := None, modelOverride := None\<rparr>)
                 else Inr (next\<lparr>providerOverride := Some (refProvider (fst resolved)),
                                modelOverride := Some (refModel (fst resolved))\<rparr>)))))"

text \<open>Sequencing of the steps: the first error ends the handler.\<close>

definition andThen :: "string + SessionEntry \<Rightarrow> (SessionEntry \<Rightarrow> string + SessionEntry) \<Rightarrow> string + SessionEntry" where
  "andThen r f = (case r of Inl e \<Rightarrow> Inl e | Inr next \<Rightarrow> f next)"

text \<open>The entry the patch starts from: the existing one with its time bumped, or a new one.\<close>

definition initialNext :: "GatewayEnv \<Rightarrow> SessionEntry option \<Rightarrow> SessionEntry" where
  "initialNext env existing =
     (case existing of
        Some e \<Rightarrow> e\<lparr>updatedAt := Some (max (case updatedAt e of None \<Rightarrow> 0 | Some u \<Rightarrow> u) (Date_now env))\<rparr>
      | None \<Rightarrow> \<lparr>sessionId = randomUUID env, updatedAt = Some (Date_now env), systemSent = None,
          abortedLastRun = None, thinkingLevel = None, verboseLevel = None, reasoningLevel = None,
          responseUsage = None, model = None, contextTokens = None, sendPolicy = None,
          lastProvider = None, lastTo = None, skillsSnapshot = None, spawnedBy = None,
          providerOverride = None, modelOverride = None, groupActivation = None,
          inputTokens = None, outputTokens = None, totalTokens = None\<rparr>)"

definition applyPatch ::
  "GatewayEnv \<Rightarrow> SessionsPatchParams \<Rightarrow> string \<Rightarrow> SessionEntry option \<Rightarrow> string + SessionEntry" where
  "applyPatch env p primaryKey existing =
     andThen (andThen (andThen (andThen (andThen (andThen (andThen
       (patchSpawnedByStep (patchSpawnedBy p) primaryKey existing (initialNext env existing))
       (patchLevelStep (patchThinkingLevel p) (normalizeThinkLevel env)
          ''invalid thinkingLevel (use off|minimal|low|medium|high)''
          (\<lambda>v e. e\<lparr>thinkingLevel := v\<rparr>)))
       (patchLevelStep (patchVerboseLevel p) (normalizeVerboseLevel env)
          ''invalid verboseLevel (use \"on\"|\"off\")''
          (\<lambda>v e. e\<lparr>verboseLevel := v\<rparr>)))
       (patchLevelStep (patchReasoningLevel p) (normalizeReasoningLevel env)
          ''invalid reasoningLevel (use \"on\"|\"off\"|\"stream\")''
          (\<lambda>v e. e\<lparr>reasoningLevel := v\<rparr>)))
       (patchLevelStep (patchResponseUsage p) (normalizeUsageDisplay env)
          ''invalid responseUsage (use \"on\"|\"off\")''
          (\<lambda>v e. e\<lparr>responseUsage := v\<rparr>)))
       (patchModelStep env (patchModel p)))
       (patchPolicyStep (patchSendPolicy p) (normalizeSendPolicy env)
          ''invalid sendPolicy (use \"allow\"|\"deny\")''
          (\<lambda>v e. e\<lparr>sendPolicy := v\<rparr>)))
       (patchPolicyStep (patchGroupActivation p) (normalizeGroupActivation env)
          ''invalid groupActivation (use \"mention\"|\"always\")''
          (\<lambda>v e. e\<lparr>groupActivation := v\<rparr>))"

text \<open>The entry that \<open>sessions.patch\<close> and \<open>sessions.reset\<close> find for a key.\<close>

definition existingEntry :: "GatewayEnv \<Rightarrow> string \<Rightarrow> SessionStore \<Rightarrow> SessionEntry option" where
  "existingEntry env key store =
     (let target = resolveGatewaySessionStoreTarget env key in
      migrateToPrimary target key store (primaryKeyOf target key))"

text \<open>
  \<open>sessions.patch\<close>. The argument is the content of the store file, the result is its
  content when the handler returns, with the response. Only the last step writes the file.
\<close>

definition sessionsPatch :: "GatewayEnv \<Rightarrow> SessionsPatchParams \<Rightarrow> SessionStore \<Rightarrow> SessionStore \<times> Response" where
  "sessionsPatch env p disk =
     (if \<not> paramsValid env
        then (disk, Failure INVALID_REQUEST (''invalid sessions.patch params: '' @ validationErrors env))
      else (let key = trim (orEmpty (patchKey p)) in
        if key = [] then (disk, Failure INVALID_REQUEST ''key required'')
        else (let target = resolveGatewaySessionStoreTarget env key;
                  primaryKey = primaryKeyOf target key;
                  store = migrateToPrimary target key disk;
                  existing = store primaryKey in
          case applyPatch env p primaryKey existing of
            Inl message \<Rightarrow> (disk, Failure INVALID_REQUEST message)
          | Inr next \<Rightarrow>
              (store(primaryKey \<mapsto> next),
               Patched (storePath target) (canonicalKey target) next))))"

record SessionsResetParams =
  resetKey :: "string option"

definition resetEntry :: "GatewayEnv \<Rightarrow> SessionEntry option \<Rightarrow> SessionEntry" where
  "resetEntry env entry =
     \<lparr>sessionId = randomUUID env,
      updatedAt = Some (Date_now env),
      systemSent = Some False,
      abortedLastRun = Some False,
      thinkingLevel = Option.bind entry thinkingLevel,
      verboseLevel = Option.bind entry verboseLevel,
      reasoningLevel = Option.bind entry reasoningLevel,
      responseUsage = Option.bind entry responseUsage,
      model = Option.bind entry model,
      contextTokens = Option.bind entry contextTokens,
      sendPolicy = Option.bind entry sendPolicy,
      lastProvider = Option.bind entry lastProvider,
      lastTo = Option.bind entry lastTo,
      skillsSnapshot = Option.bind entry skillsSnapshot,
      spawnedBy = None, providerOverride = None, modelOverride = None, groupActivation = None,
      inputTokens = None, outputTokens = None, totalTokens = None\<rparr>"

definition sessionsReset :: "GatewayEnv \<Rightarrow> SessionsResetParams \<Rightarrow> SessionStore \<Rightarrow> SessionStore \<times> Response" where
  "sessionsReset env p disk =
     (if \<not> paramsValid env
        then (disk, Failure INVALID_REQUEST (''invalid sessions.reset params: '' @ validationErrors env))
      else (let key = trim (orEmpty (resetKey p)) in
        if key = [] then (disk, Failure INVALID_REQUEST ''key required'')
        else (let target = resolveGatewaySessionStoreTarget env key;
                  primaryKey = primaryKeyOf target key;
                  store = migrateToPrimary target key disk;
                  next = resetEntry env (store primaryKey) in
          (store(primaryKey \<mapsto> next), ResetDone (canonicalKey target) next))))"

text \<open>
  An environment, a subagent entry and a store for the examples: the target of a key is
  the key itself, and no level name is known to the normalisers.
\<close>

definition exampleEnv :: GatewayEnv where
  "exampleEnv = \<lparr>paramsValid = True, validationErrors = [],
     loadConfig = \<lparr>agentModels = [], agentModel = None\<rparr>,
     resolveGatewaySessionStoreTarget =
       (\<lambda>key. \<lparr>storePath = ''sessions.json'', storeKeys = [key], canonicalKey = key\<rparr>),
     Date_now = 2000, randomUUID = ''uuid-2'', loadGatewayModelCatalog = [],
     DEFAULT_PROVIDER = ''anthropic'', DEFAULT_MODEL = ''claude-opus-4-5'',
     normalizeThinkLevel = (\<lambda>raw. None), normalizeVerboseLevel = (\<lambda>raw. None),
     normalizeReasoningLevel = (\<lambda>raw. None), normalizeUsageDisplay = (\<lambda>raw. None),
     normalizeSendPolicy = (\<lambda>raw. None), normalizeGroupActivation = (\<lambda>raw. None)\<rparr>"

definition workerEntry :: SessionEntry where
  "workerEntry = \<lparr>sessionId = ''uuid-1'', updatedAt = Some 1000, systemSent = Some True,
     abortedLastRun = Some True, thinkingLevel = Some ''high'', verboseLevel = None,
     reasoningLevel = None, responseUsage = None, model = None, contextTokens = None,
     sendPolicy = Some ''deny'', lastProvider = None, lastTo = None,
     skillsSnapshot = Some ''skills'', spawnedBy = Some ''agent:main:main'',
     providerOverride = None, modelOverride = None, groupActivation = None,
     inputTokens = Some 10, outputTokens = Some 20, totalTokens = Some 30\<rparr>"

definition exampleStore :: SessionStore where
  "exampleStore = [''agent:main:subagent:worker'' \<mapsto> workerEntry]"

definition patchOf :: "string \<Rightarrow> string Field \<Rightarrow> SessionsPatchParams" where
  "patchOf key field = \<lparr>patchKey = Some key, patchSpawnedBy = field,
     patchThinkingLevel = Absent, patchVerboseLevel = Absent, patchReasoningLevel = Absent,
     patchResponseUsage = Absent, patchModel = Absent, patchSendPolicy = Absent,
     patchGroupActivation = Absent\<rparr>"

section \<open>Block replies of a reply turn (runReplyAgent)\<close>



















section \<open>Route resolution\<close>

text \<open>
  Modelled from the spec: \<open>resolveAgentRoute\<close> of \<open>src/routing/resolve-route.ts\<close>,
  following section 4.2 of the specification and checked against the expectations of
  \<open>resolve-route.test.ts\<close>. An inbound event has a channel, an optional account id, a
  peer and an optional guild id; the configuration has the bindings in declaration order,
  an optional default agent and the session settings.
\<close>

record RoutePeer =
  kind :: PeerKind
  ident :: string

record AgentBinding =
  bindingAgentId :: string
  matchChannel :: string
  matchAccountId :: "string option"
  matchPeer :: "RoutePeer option"
  matchGuildId :: "string option"

record RouteConfig =
  bindings :: "AgentBinding list"
  defaultAgentId :: "string option"
  sessionDmScope :: "DmScope option"
  sessionMainKey :: "string option"

record RouteInput =
  inChannel :: string
  inAccountId :: "string option"
  inPeer :: RoutePeer
  inGuildId :: "string option"

datatype MatchedBy = binding_peer | binding_guild | binding_account | binding_channel | default_route

record ResolvedAgentRoute =
  routeAgentId :: string
  routeAccountId :: string
  routeSessionKey :: string
  matchedBy :: MatchedBy

text \<open>
  Modelled from the spec: a binding matches the channel of the event, both normalised,
  and its account id matches the normalised account of the event; a missing account id
  matches the default account only and \<open>*\<close> matches every account.
\<close>

definition matchesChannel :: "RouteInput \<Rightarrow> AgentBinding \<Rightarrow> bool" where
  "matchesChannel ev b = (normalizeToken (Some (matchChannel b)) = normalizeToken (Some (inChannel ev)))"

definition matchesAccountId :: "RouteInput \<Rightarrow> AgentBinding \<Rightarrow> bool" where
  "matchesAccountId ev b =
     (case matchAccountId b of
        None \<Rightarrow> normalizeAccountId (inAccountId ev) = DEFAULT_ACCOUNT_ID
      | Some a \<Rightarrow> if a = ''*'' then True else a = normalizeAccountId (inAccountId ev))"

text \<open>
  Modelled from the spec: the four binding tiers, highest first: channel, account and the
  specific peer; channel, account and the guild; channel and account exactly; channel with
  account \<open>*\<close>.
\<close>

definition matchesPeerTier :: "RouteInput \<Rightarrow> AgentBinding \<Rightarrow> bool" where
  "matchesPeerTier ev b =
     (matchesChannel ev b \<and> matchesAccountId ev b \<and> matchPeer b = Some (inPeer ev))"

definition matchesGuildTier :: "RouteInput \<Rightarrow> AgentBinding \<Rightarrow> bool" where
  "matchesGuildTier ev b =
     (matchesChannel ev b \<and> matchesAccountId ev b
      \<and> (case inGuildId ev of None \<Rightarrow> False | Some g \<Rightarrow> matchGuildId b = Some g))"

definition matchesAccountTier :: "RouteInput \<Rightarrow> AgentBinding \<Rightarrow> bool" where
  "matchesAccountTier ev b =
     (matchesChannel ev b \<and> matchesAccountId ev b \<and> matchAccountId b \<noteq> Some ''*''
      \<and> matchPeer b = None \<and> matchGuildId b = None)"

definition matchesChannelTier :: "RouteInput \<Rightarrow> AgentBinding \<Rightarrow> bool" where
  "matchesChannelTier ev b =
     (matchesChannel ev b \<and> matchAccountId b = Some ''*''
      \<and> matchPeer b = None \<and> matchGuildId b = None)"

text \<open>
  Modelled from the spec: the result for a chosen agent, with the session key built by
  \<open>buildAgentPeerSessionKey\<close> and the account id normalised.
\<close>

definition chooseRoute :: "RouteConfig \<Rightarrow> RouteInput \<Rightarrow> string \<Rightarrow> MatchedBy \<Rightarrow> ResolvedAgentRoute" where
  "chooseRoute config ev agent by =
     \<lparr>routeAgentId = agent,
      routeAccountId = normalizeAccountId (inAccountId ev),
      routeSessionKey = buildAgentPeerSessionKey
        \<lparr>agentId = agent, mainKey = sessionMainKey config,
         channel = normalizeToken (Some (inChannel ev)),
         peerKind = Some (kind (inPeer ev)), peerId = Some (ident (inPeer ev)),
         dmScope = sessionDmScope config\<rparr>,
      matchedBy = by\<rparr>"

text \<open>
  Modelled from the spec: the tiers are tried highest first, each in declaration order,
  the first match wins; then the configured default agent, then the default id
  \<open>main\<close>, both reported as \<open>default\<close>.
\<close>

definition resolveAgentRoute :: "RouteConfig \<Rightarrow> RouteInput \<Rightarrow> ResolvedAgentRoute" where
  "resolveAgentRoute config ev =
     (case find (matchesPeerTier ev) (bindings config) of
        Some b \<Rightarrow> chooseRoute config ev (bindingAgentId b) binding_peer
      | None \<Rightarrow>
     (case find (matchesGuildTier ev) (bindings config) of
        Some b \<Rightarrow> chooseRoute config ev (bindingAgentId b) binding_guild
      | None \<Rightarrow>
     (case find (matchesAccountTier ev) (bindings config) of
        Some b \<Rightarrow> chooseRoute config ev (bindingAgentId b) binding_account
      | None \<Rightarrow>
     (case find (matchesChannelTier ev) (bindings config) of
        Some b \<Rightarrow> chooseRoute config ev (bindingAgentId b) binding_channel
      | None \<Rightarrow>
          chooseRoute config ev
            (case defaultAgentId config of Some a \<Rightarrow> a | None \<Rightarrow> DEFAULT_AGENT_ID)
            default_route))))"

text \<open>The bindings and events of the tests in \<open>resolve-route.test.ts\<close>.\<close>

definition bindingFor :: "string \<Rightarrow> string \<Rightarrow> string option \<Rightarrow> RoutePeer option \<Rightarrow> string option \<Rightarrow> AgentBinding" where
  "bindingFor agent ch acct p g = \<lparr>bindingAgentId = agent, matchChannel = ch,
     matchAccountId = acct, matchPeer = p, matchGuildId = g\<rparr>"

definition configWith :: "AgentBinding list \<Rightarrow> RouteConfig" where
  "configWith bs = \<lparr>bindings = bs, defaultAgentId = None, sessionDmScope = None,
     sessionMainKey = None\<rparr>"

definition discordEvent :: RouteInput where
  "discordEvent = \<lparr>inChannel = ''discord'', inAccountId = Some ''default'',
     inPeer = \<lparr>kind = Channel, ident = ''c1''\<rparr>, inGuildId = Some ''g1''\<rparr>"

definition chanBinding :: AgentBinding where
  "chanBinding = bindingFor ''chan'' ''discord'' (Some ''default'')
     (Some \<lparr>kind = Channel, ident = ''c1''\<rparr>) None"

definition guildBinding :: AgentBinding where
  "guildBinding = bindingFor ''guild'' ''discord'' (Some ''default'') None (Some ''g1'')"

definition acctBinding :: AgentBinding where
  "acctBinding = bindingFor ''acct'' ''discord'' (Some ''default'') None None"

section \<open>Facts about the string helpers\<close>

lemma isIdChar_imp_isIdCharI: "isIdChar c \<Longrightarrow> isIdCharI c"
  by (simp add: isIdCharI_def)

lemma isAlnumI_imp_isIdCharI: "isAlnumI c \<Longrightarrow> isIdCharI c"
  by (auto simp: isIdCharI_def isAlnumI_def isIdChar_def)

lemma dash_isIdChar: "isIdChar CHR ''-''"
  by (simp add: isIdChar_def)

lemma collapseFrom_chars: "list_all isIdChar (collapseFrom b s)"
  by (induction s arbitrary: b) (simp_all add: dash_isIdChar)

lemma list_all_dropWhile: "list_all P xs \<Longrightarrow> list_all P (dropWhile Q xs)"
  by (induction xs) simp_all

lemma list_all_take: "list_all P xs \<Longrightarrow> list_all P (take n xs)"
  by (induction xs arbitrary: n) (simp_all add: take_Cons split: nat.splits)

lemma bestEffortId_chars: "list_all isIdChar (bestEffortId t)"
  unfolding bestEffortId_def stripTrailingDashes_def stripLeadingDashes_def collapseInvalid_def
  by (intro list_all_take) (simp add: list_all_dropWhile collapseFrom_chars)

lemma bestEffortId_length: "length (bestEffortId t) \<le> 64"
  by (simp add: bestEffortId_def)

lemma validIdRe_chars: "validIdRe s \<Longrightarrow> list_all isIdCharI s"
  by (cases s) (simp_all add: validIdRe_def isAlnumI_imp_isIdCharI)

lemma validIdRe_length: "validIdRe s \<Longrightarrow> length s \<le> 64"
  by (cases s) (simp_all add: validIdRe_def)

lemma validIdRe_nonempty: "validIdRe s \<Longrightarrow> s \<noteq> []"
  by (cases s) (simp_all add: validIdRe_def)

lemma idChars_not_upper:
  "list_all (\<lambda>c. c \<notin> set asciiUpper) (asciiLower @ asciiDigits @ ''_-'')"
  by (simp add: asciiLower_def asciiUpper_def asciiDigits_def)

lemma idChar_not_upper: "isIdChar c \<Longrightarrow> c \<notin> set asciiUpper"
proof -
  assume "isIdChar c"
  then have "c \<in> set (asciiLower @ asciiDigits @ ''_-'')"
    by (auto simp: isIdChar_def)
  with idChars_not_upper show ?thesis
    unfolding list_all_iff by blast
qed

lemma lowerChar_not_upper: "c \<notin> set asciiUpper \<Longrightarrow> lowerChar c = c"
proof -
  assume "c \<notin> set asciiUpper"
  then have "map_of (zip asciiUpper asciiLower) c = None"
    by (simp add: map_of_eq_None_iff asciiUpper_def asciiLower_def)
  then show ?thesis by (simp add: lowerChar_def)
qed

lemma lowerChar_isIdChar: "isIdChar c \<Longrightarrow> lowerChar c = c"
  by (simp add: idChar_not_upper lowerChar_not_upper)

lemma toLowerCase_isIdChar: "list_all isIdChar s \<Longrightarrow> toLowerCase s = s"
  by (induction s) (simp_all add: toLowerCase_def lowerChar_isIdChar)

lemma main_chars: "list_all isIdChar DEFAULT_AGENT_ID"
  by (simp add: DEFAULT_AGENT_ID_def isIdChar_def asciiLower_def)

lemma collapseFrom_valid: "list_all isIdChar s \<Longrightarrow> collapseFrom b s = s"
  by (induction s arbitrary: b) simp_all

lemma collapseFrom_run:
  "list_all (\<lambda>c. \<not> isIdChar c) bad \<Longrightarrow> collapseFrom True (bad @ s) = collapseFrom True s"
  by (induction bad) simp_all

lemma collapseInvalid_run:
  assumes "list_all isIdChar a" "bad \<noteq> []" "list_all (\<lambda>c. \<not> isIdChar c) bad" "list_all isIdChar b"
  shows "collapseInvalid (a @ bad @ b) = a @ ''-'' @ b"
  using assms unfolding collapseInvalid_def
proof (induction a)
  case Nil
  then obtain c cs where bad: "bad = c # cs" by (cases bad) auto
  with Nil have "collapseFrom True (cs @ b) = b"
    by (simp add: collapseFrom_run collapseFrom_valid)
  with Nil bad show ?case by simp
next
  case (Cons x a)
  then show ?case by simp
qed

lemma bestEffortId_Nil: "bestEffortId [] = []"
  by (simp add: bestEffortId_def toLowerCase_def collapseInvalid_def stripLeadingDashes_def
      stripTrailingDashes_def)

section \<open>Agent id normalisation\<close>

lemma normalizeAgentId_paths:
  "normalizeAgentId v \<noteq> []
   \<and> length (normalizeAgentId v) \<le> 64
   \<and> list_all isIdCharI (normalizeAgentId v)
   \<and> (validIdRe (trim (orEmpty v)) \<longrightarrow> normalizeAgentId v = trim (orEmpty v))
   \<and> (\<not> validIdRe (trim (orEmpty v)) \<longrightarrow>
        list_all isIdChar (normalizeAgentId v)
        \<and> toLowerCase (normalizeAgentId v) = normalizeAgentId v
        \<and> normalizeAgentId v =
            (if bestEffortId (trim (orEmpty v)) = [] then ''main''
             else bestEffortId (trim (orEmpty v))))"
proof -
  let ?t = "trim (orEmpty v)"
  show ?thesis
  proof (cases "validIdRe ?t")
    case True
    then have "normalizeAgentId v = ?t"
      by (auto simp: normalizeAgentId_def Let_def dest: validIdRe_nonempty)
    with True show ?thesis
      by (simp add: validIdRe_chars validIdRe_length validIdRe_nonempty)
  next
    case False
    have eq: "normalizeAgentId v = (if bestEffortId ?t = [] then ''main'' else bestEffortId ?t)"
      using False
      by (simp add: normalizeAgentId_def Let_def DEFAULT_AGENT_ID_def bestEffortId_Nil)
    have ch: "list_all isIdChar (normalizeAgentId v)"
      using main_chars bestEffortId_chars [of ?t] by (simp add: eq DEFAULT_AGENT_ID_def)
    have "list_all isIdCharI (normalizeAgentId v)"
      using ch by (simp add: list_all_iff isIdChar_imp_isIdCharI)
    moreover have "length (normalizeAgentId v) \<le> 64"
      using bestEffortId_length [of ?t] by (simp add: eq)
    moreover have "normalizeAgentId v \<noteq> []"
      by (simp add: eq)
    ultimately show ?thesis
      using False ch eq toLowerCase_isIdChar [OF ch] by simp
  qed
qed

text \<open>
  Claim C9, as amended. For every input, \<open>normalizeAgentId\<close> returns a non-empty id of
  at most 64 characters over \<open>[A-Za-z0-9_-]\<close>. A trimmed input that already matches
  \<open>/^[a-z0-9][a-z0-9_-]{0,63}$/i\<close> is returned as it is, upper case letters included.
  Every other input is lower-cased, its runs of characters outside \<open>[a-z0-9_-]\<close> are
  collapsed to \<open>-\<close>, leading and trailing \<open>-\<close> are removed and the rest is cut
  to 64 characters, so the result is lower case over \<open>[a-z0-9_-]\<close>; when nothing is
  left the result is the default id \<open>main\<close>.
\<close>

theorem normalizeAgentId_shape:
  "normalizeAgentId v \<noteq> []
   \<and> length (normalizeAgentId v) \<le> 64
   \<and> list_all isIdCharI (normalizeAgentId v)
   \<and> (validIdRe (trim (orEmpty v)) \<longrightarrow> normalizeAgentId v = trim (orEmpty v))
   \<and> (\<not> validIdRe (trim (orEmpty v)) \<longrightarrow>
        list_all isIdChar (normalizeAgentId v)
        \<and> toLowerCase (normalizeAgentId v) = normalizeAgentId v
        \<and> normalizeAgentId v =
            (if bestEffortId (trim (orEmpty v)) = [] then ''main''
             else bestEffortId (trim (orEmpty v))))
   \<and> (list_all isIdChar a \<and> bad \<noteq> [] \<and> list_all (\<lambda>c. \<not> isIdChar c) bad
        \<and> list_all isIdChar b \<longrightarrow>
        collapseInvalid (a @ bad @ b) = a @ ''-'' @ b)"
  using normalizeAgentId_paths [of v] collapseInvalid_run [of a bad b] by blast

theorem normalizeAgentId_shape_witness:
  "normalizeAgentId (Some ''Ops_Team-1'') = ''Ops_Team-1''
   \<and> normalizeAgentId (Some ''  My Agent!!  '') = ''my-agent''
   \<and> list_all isIdChar (normalizeAgentId (Some ''  My Agent!!  ''))
   \<and> normalizeAgentId (Some ''!!!'') = ''main''
   \<and> collapseInvalid (''my'' @ '' !?'' @ ''agent'') = ''my-agent''"
proof -
  have v: "validIdRe (trim (orEmpty (Some ''Ops_Team-1'')))"
    by code_simp
  have t: "trim (orEmpty (Some ''Ops_Team-1'')) = ''Ops_Team-1''"
    by code_simp
  have n1: "\<not> validIdRe (trim (orEmpty (Some ''  My Agent!!  '')))"
    by code_simp
  have b1: "bestEffortId (trim (orEmpty (Some ''  My Agent!!  ''))) = ''my-agent''"
    by code_simp
  have n2: "\<not> validIdRe (trim (orEmpty (Some ''!!!'')))"
    by code_simp
  have b2: "bestEffortId (trim (orEmpty (Some ''!!!''))) = []"
    by code_simp
  have r1: "normalizeAgentId (Some ''Ops_Team-1'') = ''Ops_Team-1''"
    using normalizeAgentId_shape [of "Some ''Ops_Team-1''"] v t by simp
  have r2: "normalizeAgentId (Some ''  My Agent!!  '') = ''my-agent''"
    using normalizeAgentId_shape [of "Some ''  My Agent!!  ''"] n1 b1 by simp
  have r2': "list_all isIdChar (normalizeAgentId (Some ''  My Agent!!  ''))"
    using normalizeAgentId_shape [of "Some ''  My Agent!!  ''"] n1 by blast
  have r3: "normalizeAgentId (Some ''!!!'') = ''main''"
    using normalizeAgentId_shape [of "Some ''!!!''"] n2 b2 by simp
  have c: "list_all isIdChar ''my'' \<and> '' !?'' \<noteq> [] \<and> list_all (\<lambda>c. \<not> isIdChar c) '' !?''
      \<and> list_all isIdChar ''agent''"
    by code_simp
  have r4: "collapseInvalid (''my'' @ '' !?'' @ ''agent'') = ''my-agent''"
    using normalizeAgentId_shape [of None "''my''" "'' !?''" "''agent''"] c by simp
  from r1 r2 r2' r3 r4 show ?thesis by blast
qed

text \<open>
  The claim as written fails on the first path: \<open>Main\<close> matches the case-insensitive
  pattern and is returned with its capital letter.
\<close>

theorem normalizeAgentId_lowercase_counterexample:
  "\<not> list_all isIdChar (normalizeAgentId (Some ''Main''))"
  by (simp add: normalizeAgentId_def orEmpty_def trim_def isWhiteSpace_def validIdRe_def
      isAlnumI_def isIdCharI_def isIdChar_def asciiUpper_def asciiLower_def asciiDigits_def)

section \<open>Direct-message session keys\<close>

text \<open>
  Claim C1. With \<open>peerKind\<close> \<open>dm\<close> (or unset, which defaults to \<open>dm\<close>) and
  \<open>dmScope\<close> \<open>main\<close> (or unset), \<open>buildAgentPeerSessionKey\<close> returns
  \<open>agent:<agentId>:<mainKey>\<close>, with the agent id normalised and the main key trimmed
  and replaced by \<open>main\<close> when it is missing or blank; changing the channel and the
  peer id does not change the key.
\<close>

theorem buildAgentPeerSessionKey_dm_main:
  "(peerKind p = None \<or> peerKind p = Some Dm) \<Longrightarrow>
   (dmScope p = None \<or> dmScope p = Some ScopeMain) \<Longrightarrow>
   buildAgentPeerSessionKey p =
     ''agent:'' @ normalizeAgentId (Some (agentId p)) @ '':'' @
       (if trim (orEmpty (mainKey p)) \<noteq> [] then trim (orEmpty (mainKey p)) else ''main'')
   \<and> buildAgentPeerSessionKey (p\<lparr>channel := ch, peerId := pid\<rparr>) = buildAgentPeerSessionKey p"
  by (auto simp: buildAgentPeerSessionKey_def buildAgentMainSessionKey_def normalizeMainKey_def
      DEFAULT_MAIN_KEY_def Let_def)

theorem buildAgentPeerSessionKey_dm_main_witness:
  "buildAgentPeerSessionKey \<lparr>agentId = ''main'', mainKey = None, channel = ''whatsapp'',
      peerKind = Some Dm, peerId = Some ''+1555'', dmScope = None\<rparr> = ''agent:main:main''
   \<and> buildAgentPeerSessionKey \<lparr>agentId = ''main'', mainKey = None, channel = ''telegram'',
      peerKind = Some Dm, peerId = Some ''+1999'', dmScope = None\<rparr> = ''agent:main:main''"
proof -
  have a: "normalizeAgentId (Some ''main'') = ''main''"
    by code_simp
  have m: "trim (orEmpty None) = []"
    by code_simp
  show ?thesis
    using buildAgentPeerSessionKey_dm_main [where p = "\<lparr>agentId = ''main'', mainKey = None,
      channel = ''whatsapp'', peerKind = Some Dm, peerId = Some ''+1555'', dmScope = None\<rparr>"
      and ch = "''telegram''" and pid = "Some ''+1999''"]
    by (simp add: a m)
qed

section \<open>Next run of an every schedule\<close>

lemma int_ceiling_by_floor:
  fixes E M :: int
  assumes M: "0 < M"
  shows "(E + M - 1) div M = - ((- E) div M)"
proof -
  define q r where "q = E div M" and "r = E mod M"
  have E: "E = r + M * q" by (simp add: q_def r_def)
  have r: "0 \<le> r" "r < M" using M by (simp_all add: r_def)
  have M0: "M \<noteq> 0" using M by simp
  show ?thesis
  proof (cases "r = 0")
    case True
    have "E + M - 1 = (M - 1) + M * q"
      using E True by (simp add: algebra_simps)
    then have "(E + M - 1) div M = ((M - 1) + M * q) div M"
      by (simp only:)
    also have "\<dots> = q + (M - 1) div M"
      using M0 by (rule div_mult_self2)
    also have "(M - 1) div M = 0"
      using M by (simp add: div_pos_pos_trivial)
    finally have l: "(E + M - 1) div M = q" by simp
    have "(- E) div M = (0 + M * (- q)) div M"
      using E True by simp
    also have "\<dots> = - q + 0 div M"
      using M0 by (rule div_mult_self2)
    finally have "(- E) div M = - q" by simp
    with l show ?thesis by simp
  next
    case False
    with r have rpos: "0 < r" by simp
    have "E + M - 1 = (r - 1) + M * (q + 1)"
      using E by (simp add: algebra_simps)
    then have "(E + M - 1) div M = ((r - 1) + M * (q + 1)) div M"
      by (simp only:)
    also have "\<dots> = (q + 1) + (r - 1) div M"
      using M0 by (rule div_mult_self2)
    also have "(r - 1) div M = 0"
      using rpos r by (simp add: div_pos_pos_trivial)
    finally have l: "(E + M - 1) div M = q + 1" by simp
    have "- E = (M - r) + M * (- q - 1)"
      using E by (simp add: algebra_simps)
    then have "(- E) div M = ((M - r) + M * (- q - 1)) div M"
      by (simp only:)
    also have "\<dots> = (- q - 1) + (M - r) div M"
      using M0 by (rule div_mult_self2)
    also have "(M - r) div M = 0"
      using rpos r by (simp add: div_pos_pos_trivial)
    finally have "(- E) div M = - q - 1" by simp
    with l show ?thesis by simp
  qed
qed

lemma floor_steps_eq_ceiling:
  fixes E M :: int
  assumes "0 < M"
  shows "\<lfloor>(of_int E + of_int M - 1) / (of_int M :: real)\<rfloor> = \<lceil>of_int E / (of_int M :: real)\<rceil>"
proof -
  have "(of_int E + of_int M - 1 :: real) = of_int (E + M - 1)"
    by simp
  then have "\<lfloor>(of_int E + of_int M - 1) / (of_int M :: real)\<rfloor> = (E + M - 1) div M"
    by (simp only: floor_divide_of_int_eq)
  also have "\<dots> = - ((- E) div M)"
    using assms by (rule int_ceiling_by_floor)
  also have "\<dots> = \<lceil>of_int E / (of_int M :: real)\<rceil>"
    by (simp only: ceiling_divide_eq_div)
  finally show ?thesis .
qed

lemma interval_int: "\<exists>M::int. 0 < M \<and> max 1 (Math_floor x) = of_int M"
proof -
  have "max 1 (Math_floor x) = of_int (max 1 \<lfloor>x\<rfloor>)"
    by (simp add: Math_floor_def max_def)
  then show ?thesis
    by (intro exI [of _ "max 1 \<lfloor>x\<rfloor>"]) simp
qed

lemma anchor_int: "\<exists>A::int. max 0 (Math_floor x) = of_int A"
proof -
  have "max 0 (Math_floor x) = of_int (max 0 \<lfloor>x\<rfloor>)"
    by (simp add: Math_floor_def max_def)
  then show ?thesis by blast
qed

lemma every_steps:
  assumes now: "nowMs \<in> \<int>"
  shows "max 1 (Math_floor ((nowMs - max 0 (Math_floor a) + max 1 (Math_floor e) - 1) / max 1 (Math_floor e)))
       = max 1 (of_int \<lceil>(nowMs - max 0 (Math_floor a)) / max 1 (Math_floor e)\<rceil>)"
proof -
  obtain M :: int where M: "0 < M" "max 1 (Math_floor e) = of_int M"
    using interval_int by blast
  obtain A :: int where A: "max 0 (Math_floor a) = of_int A"
    using anchor_int by blast
  obtain N :: int where N: "nowMs = of_int N"
    using now by (auto elim: Ints_cases)
  have "Math_floor ((of_int (N - A) + of_int M - 1) / of_int M) = of_int \<lceil>of_int (N - A) / (of_int M :: real)\<rceil>"
    unfolding Math_floor_def using floor_steps_eq_ceiling [OF M(1), of "N - A"] by simp
  then show ?thesis
    by (simp add: M A N)
qed

text \<open>
  Claim C6, as amended. For an \<open>every\<close> schedule and an integral \<open>nowMs\<close>, with
  \<open>interval = max(1, floor(everyMs))\<close> and \<open>anchor = max(0, floor(anchorMs ?? nowMs))\<close>,
  \<open>computeNextRunAtMs\<close> returns \<open>anchor\<close> when \<open>nowMs < anchor\<close> and
  \<open>anchor + max(1, ceil((nowMs - anchor) / interval)) * interval\<close> otherwise. So the
  formula \<open>anchor + ceil((now - anchor) / interval) * interval\<close> holds when the anchor
  is strictly in the past, and anchor 0, interval 1000, now 2500 gives 3000.
\<close>

theorem computeNextRunAtMs_every:
  "nowMs \<in> \<int> \<Longrightarrow>
   (let interval = max 1 (Math_floor everyMs);
        anchor = max 0 (Math_floor (case anchorMs of None \<Rightarrow> nowMs | Some a \<Rightarrow> a)) in
    computeNextRunAtMs parseAbs cronNext (Every everyMs anchorMs) nowMs =
      Some (if nowMs < anchor then anchor
            else anchor + max 1 (of_int \<lceil>(nowMs - anchor) / interval\<rceil>) * interval)
    \<and> (anchor < nowMs \<longrightarrow>
         computeNextRunAtMs parseAbs cronNext (Every everyMs anchorMs) nowMs =
           Some (anchor + of_int \<lceil>(nowMs - anchor) / interval\<rceil> * interval)))
   \<and> computeNextRunAtMs parseAbs cronNext (Every 1000 (Some 0)) 2500 = Some 3000"
proof -
  assume now: "nowMs \<in> \<int>"
  define a where "a = (case anchorMs of None \<Rightarrow> nowMs | Some a \<Rightarrow> a)"
  define interval where "interval = max 1 (Math_floor everyMs)"
  define anchor where "anchor = max 0 (Math_floor a)"
  have ipos: "0 < interval" by (simp add: interval_def)
  have gen: "computeNextRunAtMs parseAbs cronNext (Every everyMs anchorMs) nowMs =
      Some (if nowMs < anchor then anchor
            else anchor + max 1 (of_int \<lceil>(nowMs - anchor) / interval\<rceil>) * interval)"
    using every_steps [OF now, of a everyMs]
    by (simp add: computeNextRunAtMs_def everyNextRunAtMs_def Let_def a_def interval_def anchor_def)
  have pos: "computeNextRunAtMs parseAbs cronNext (Every everyMs anchorMs) nowMs =
           Some (anchor + of_int \<lceil>(nowMs - anchor) / interval\<rceil> * interval)"
    if lt: "anchor < nowMs"
  proof -
    have "0 < (nowMs - anchor) / interval"
      using lt ipos by simp
    then have "1 \<le> \<lceil>(nowMs - anchor) / interval\<rceil>"
      by (simp add: ceiling_le_iff less_ceiling_iff Suc_le_eq)
    then have "max 1 (of_int \<lceil>(nowMs - anchor) / interval\<rceil>) = (of_int \<lceil>(nowMs - anchor) / interval\<rceil> :: real)"
      by (simp add: max_def)
    with gen lt show ?thesis by simp
  qed
  have ex: "computeNextRunAtMs parseAbs cronNext (Every 1000 (Some 0)) 2500 = Some 3000"
    by (simp add: computeNextRunAtMs_def everyNextRunAtMs_def Math_floor_def)
  from gen pos ex show ?thesis
    by (simp add: Let_def a_def interval_def anchor_def)
qed

theorem computeNextRunAtMs_every_witness:
  "computeNextRunAtMs (\<lambda>s. None) (\<lambda>e tz t. None) (Every 1000 (Some 0)) 2500 = Some 3000
   \<and> computeNextRunAtMs (\<lambda>s. None) (\<lambda>e tz t. None) (Every 1000 None) 2500 = Some 3500
   \<and> computeNextRunAtMs (\<lambda>s. None) (\<lambda>e tz t. None) (Every 1000 (Some 5000)) 2500 = Some 5000"
proof -
  have z: "(2500::real) \<in> \<int>" by simp
  have f: "Math_floor 1000 = 1000" "Math_floor 0 = 0" "Math_floor 2500 = 2500" "Math_floor 5000 = 5000"
    by (simp_all add: Math_floor_def)
  show ?thesis
    using computeNextRunAtMs_every [OF z, of 1000 "Some 0" "\<lambda>s. None" "\<lambda>e tz t. None"]
      computeNextRunAtMs_every [OF z, of 1000 None "\<lambda>s. None" "\<lambda>e tz t. None"]
      computeNextRunAtMs_every [OF z, of 1000 "Some 5000" "\<lambda>s. None" "\<lambda>e tz t. None"]
    by (simp add: f Let_def)
qed

text \<open>
  The formula of the claim fails where the guards of the code act: with the run time on
  the anchor the code takes one full step, and with the anchor in the future it returns
  the anchor. \<open>computeNextRunAtMs\<close> on an \<open>every\<close> schedule is \<open>everyNextRunAtMs\<close>.
\<close>

theorem computeNextRunAtMs_every_counterexample:
  "everyNextRunAtMs 1000 (Some 2000) 2000 = 3000
   \<and> everyNextRunAtMs 1000 (Some 2000) 2000 \<noteq> 2000 + of_int \<lceil>(2000 - 2000) / (1000::real)\<rceil> * 1000
   \<and> everyNextRunAtMs 1000 (Some 5000) 2500 = 5000
   \<and> everyNextRunAtMs 1000 (Some 5000) 2500 \<noteq> 5000 + of_int \<lceil>(2500 - 5000) / (1000::real)\<rceil> * 1000"
  by (simp add: everyNextRunAtMs_def Math_floor_def)

section \<open>Due jobs\<close>

lemma isDue_iff:
  "isDue now j \<longleftrightarrow>
     enabled j \<and> runningAtMs (state j) = None
     \<and> (\<exists>next. nextRunAtMs (state j) = Some next \<and> next \<le> now)"
  by (auto simp: isDue_def split: option.splits)

lemma markRunning_not_due: "\<not> isDue now (markRunning t j)"
  by (simp add: isDue_def markRunning_def)

lemma findDueJobs_marked:
  "set (findDueJobs (Some (markDueJobs jobs tick t)) now) \<subseteq> {j \<in> set jobs. \<not> isDue tick j}"
  by (auto simp: findDueJobs_def markDueJobs_def markRunning_not_due split: if_splits)

text \<open>
  Claim C7. A job is in the due set exactly when the store holds it, it is enabled, its
  \<open>runningAtMs\<close> is unset and its \<open>nextRunAtMs\<close> is a number not after \<open>now\<close>.
  After \<open>onTimer\<close> has marked the due jobs as running, a later tick selects only
  jobs of the store that were not due at the first tick, and none of the marked jobs.
\<close>

theorem findDueJobs_excludes_running:
  "(j \<in> set (findDueJobs store now) \<longleftrightarrow>
      (\<exists>jobs. store = Some jobs \<and> j \<in> set jobs \<and> enabled j
         \<and> runningAtMs (state j) = None
         \<and> (\<exists>next. nextRunAtMs (state j) = Some next \<and> next \<le> now)))
   \<and> (\<forall>k \<in> set (findDueJobs (Some (markDueJobs jobs tick t)) now').
         k \<in> set jobs \<and> \<not> isDue tick k)
   \<and> findDueJobs (Some (map (markRunning t) (findDueJobs (Some jobs) tick))) now' = []"
proof (intro conjI)
  show "j \<in> set (findDueJobs store now) \<longleftrightarrow>
      (\<exists>jobs. store = Some jobs \<and> j \<in> set jobs \<and> enabled j
         \<and> runningAtMs (state j) = None
         \<and> (\<exists>next. nextRunAtMs (state j) = Some next \<and> next \<le> now))"
    by (cases store) (auto simp: findDueJobs_def isDue_iff)
next
  show "\<forall>k \<in> set (findDueJobs (Some (markDueJobs jobs tick t)) now').
         k \<in> set jobs \<and> \<not> isDue tick k"
    using findDueJobs_marked [of jobs tick t now'] by blast
next
  show "findDueJobs (Some (map (markRunning t) (findDueJobs (Some jobs) tick))) now' = []"
    by (simp add: findDueJobs_def filter_empty_conv markRunning_not_due)
qed

theorem findDueJobs_excludes_running_witness:
  "jobA \<in> set (findDueJobs (Some [jobA, jobB, jobC]) 200)
   \<and> jobB \<notin> set (findDueJobs (Some [jobA, jobB, jobC]) 200)
   \<and> jobC \<in> set (findDueJobs (Some (markDueJobs [jobA, jobB, jobC] 200 201)) 300)
   \<and> \<not> isDue 200 jobC
   \<and> findDueJobs (Some (map (markRunning 201) (findDueJobs (Some [jobA, jobB, jobC]) 200))) 300 = []"
proof -
  note inst = findDueJobs_excludes_running [where store = "Some [jobA, jobB, jobC]" and now = 200
      and jobs = "[jobA, jobB, jobC]" and tick = 200 and t = 201 and now' = 300]
  have a: "jobA \<in> set (findDueJobs (Some [jobA, jobB, jobC]) 200)"
    using inst [of jobA] by (simp add: jobA_def idleState_def)
  have b: "jobB \<notin> set (findDueJobs (Some [jobA, jobB, jobC]) 200)"
    using inst [of jobB] by (simp add: jobB_def idleState_def)
  have c: "jobC \<in> set (findDueJobs (Some (markDueJobs [jobA, jobB, jobC] 200 201)) 300)"
    by (simp add: findDueJobs_def markDueJobs_def isDue_def markRunning_def jobA_def jobB_def
        jobC_def idleState_def)
  have c': "\<not> isDue 200 jobC"
    using inst [of jobA] c by blast
  have d: "findDueJobs (Some (map (markRunning 201) (findDueJobs (Some [jobA, jobB, jobC]) 200))) 300 = []"
    using inst [of jobA] by blast
  from a b c c' d show ?thesis by blast
qed

section \<open>The sanitised environment\<close>

lemma lower_upper_disjoint:
  "list_all (\<lambda>c. c \<notin> set asciiLower) asciiUpper"
  by (simp add: asciiLower_def asciiUpper_def)

lemma upper_not_whitespace:
  "list_all (\<lambda>c. \<not> isWhiteSpace c) (asciiUpper @ asciiLower)"
  by (simp add: asciiLower_def asciiUpper_def isWhiteSpace_def)

lemma upperChar_no_lower: "c \<notin> set asciiLower \<Longrightarrow> upperChar c = c"
proof -
  assume "c \<notin> set asciiLower"
  then have "map_of (zip asciiLower asciiUpper) c = None"
    by (simp add: map_of_eq_None_iff asciiUpper_def asciiLower_def)
  then show ?thesis by (simp add: upperChar_def)
qed

lemma upperChar_lower: "c \<in> set asciiLower \<Longrightarrow> upperChar c \<in> set asciiUpper"
proof -
  assume "c \<in> set asciiLower"
  then have "c \<in> dom (map_of (zip asciiLower asciiUpper))"
    by (simp add: asciiUpper_def asciiLower_def)
  then obtain d where d: "map_of (zip asciiLower asciiUpper) c = Some d"
    by blast
  then have "(c, d) \<in> set (zip asciiLower asciiUpper)"
    by (rule map_of_SomeD)
  then have "d \<in> set asciiUpper"
    by (rule set_zip_rightD)
  with d show ?thesis by (simp add: upperChar_def)
qed

lemma upperChar_not_lower: "upperChar c \<notin> set asciiLower"
proof (cases "c \<in> set asciiLower")
  case True
  then have "upperChar c \<in> set asciiUpper" by (rule upperChar_lower)
  with lower_upper_disjoint show ?thesis
    unfolding list_all_iff by blast
next
  case False
  then show ?thesis by (simp add: upperChar_no_lower)
qed

lemma upperChar_idem: "upperChar (upperChar c) = upperChar c"
  by (simp add: upperChar_not_lower upperChar_no_lower)

lemma toUpperCase_idem: "toUpperCase (toUpperCase s) = toUpperCase s"
  by (simp add: toUpperCase_def upperChar_idem)

lemma isWhiteSpace_upperChar: "isWhiteSpace (upperChar c) = isWhiteSpace c"
proof (cases "c \<in> set asciiLower")
  case True
  then have "upperChar c \<in> set asciiUpper" by (rule upperChar_lower)
  with True upper_not_whitespace show ?thesis
    unfolding list_all_iff by auto
next
  case False
  then show ?thesis by (simp add: upperChar_no_lower)
qed

lemma dropWhile_ws_upper:
  "dropWhile isWhiteSpace (toUpperCase s) = toUpperCase (dropWhile isWhiteSpace s)"
  by (induction s) (simp_all add: toUpperCase_def isWhiteSpace_upperChar)

lemma trim_toUpperCase: "trim (toUpperCase s) = toUpperCase (trim s)"
proof -
  have r: "rev (toUpperCase t) = toUpperCase (rev t)" for t
    by (simp add: toUpperCase_def rev_map)
  show ?thesis
    unfolding trim_def by (simp only: dropWhile_ws_upper r)
qed

lemma toUpperCase_Nil_iff: "toUpperCase s = [] \<longleftrightarrow> s = []"
  by (simp add: toUpperCase_def)

lemma isDangerous_toUpperCase:
  "isDangerousHostEnvVarName policy (toUpperCase k) = isDangerousHostEnvVarName policy k"
  by (simp add: isDangerousHostEnvVarName_def normalizeEnvVarKey_def trim_toUpperCase
      toUpperCase_Nil_iff toUpperCase_idem Let_def)

lemma safeEnv_setProp:
  "safeEnv policy m \<Longrightarrow> \<not> isDangerousHostEnvVarName policy key \<Longrightarrow> safeEnv policy (setProp m key v)"
  by (auto simp: safeEnv_def setProp_def)

lemma safeEnv_baseStep: "safeEnv policy m \<Longrightarrow> safeEnv policy (baseStep policy e m)"
  by (auto simp: baseStep_def safeEnv_setProp split: option.splits)

lemma safeEnv_overrideStep: "safeEnv policy m \<Longrightarrow> safeEnv policy (overrideStep policy b e m)"
  by (auto simp: overrideStep_def Let_def safeEnv_setProp isDangerous_toUpperCase split: option.splits)

lemma safeEnv_fold_base: "safeEnv policy m \<Longrightarrow> safeEnv policy (fold (baseStep policy) es m)"
  by (induction es arbitrary: m) (simp_all add: safeEnv_baseStep)

lemma safeEnv_fold_override:
  "safeEnv policy m \<Longrightarrow> safeEnv policy (fold (overrideStep policy b) es m)"
  by (induction es arbitrary: m) (simp_all add: safeEnv_overrideStep)

lemma safeEnv_sanitize: "safeEnv policy (sanitizeHostExecEnv policy baseEnv overrides bpo)"
proof -
  have "safeEnv policy Map.empty" by (simp add: safeEnv_def)
  then have "safeEnv policy (fold (baseStep policy) baseEnv Map.empty)"
    by (rule safeEnv_fold_base)
  then show ?thesis
    by (cases overrides) (simp_all add: sanitizeHostExecEnv_def Let_def safeEnv_fold_override)
qed

lemma overrideStep_path:
  "toUpperCase k = ''PATH'' \<Longrightarrow> overrideStep policy True e m k = m k"
  by (auto simp: overrideStep_def Let_def setProp_def split: option.splits)

lemma fold_override_path:
  "toUpperCase k = ''PATH'' \<Longrightarrow> fold (overrideStep policy True) es m k = m k"
  by (induction es arbitrary: m) (simp_all add: overrideStep_path)

lemma sanitizeHostExecEnv_keys_and_path:
  "(\<forall>k \<in> dom (sanitizeHostExecEnv policy baseEnv overrides blockPathOverrides).
      \<not> isDangerousHostEnvVarName policy k)
   \<and> (\<forall>k. toUpperCase k = ''PATH'' \<longrightarrow>
        sanitizeHostExecEnv policy baseEnv overrides None k =
          sanitizeHostExecEnv policy baseEnv None None k
        \<and> sanitizeHostExecEnv policy baseEnv overrides (Some True) k =
          sanitizeHostExecEnv policy baseEnv None None k)"
proof
  show "\<forall>k \<in> dom (sanitizeHostExecEnv policy baseEnv overrides blockPathOverrides).
      \<not> isDangerousHostEnvVarName policy k"
    using safeEnv_sanitize [of policy baseEnv overrides blockPathOverrides]
    by (simp add: safeEnv_def)
next
  show "\<forall>k. toUpperCase k = ''PATH'' \<longrightarrow>
        sanitizeHostExecEnv policy baseEnv overrides None k =
          sanitizeHostExecEnv policy baseEnv None None k
        \<and> sanitizeHostExecEnv policy baseEnv overrides (Some True) k =
          sanitizeHostExecEnv policy baseEnv None None k"
    by (cases overrides) (simp_all add: sanitizeHostExecEnv_def fold_override_path)
qed

text \<open>
  Claim C10. For every policy, base environment and overrides, no key of the environment
  returned by \<open>sanitizeHostExecEnv\<close> is classified as dangerous by
  \<open>isDangerousHostEnvVarName\<close>, whose verdict depends on the upper-cased name only;
  and when \<open>blockPathOverrides\<close> is unset or true, the value under every key that
  upper-cases to \<open>PATH\<close> is the one obtained from the base environment alone,
  whatever the overrides are.
\<close>

theorem sanitizeHostExecEnv_safe:
  "(\<forall>k \<in> dom (sanitizeHostExecEnv policy baseEnv overrides blockPathOverrides).
      \<not> isDangerousHostEnvVarName policy k)
   \<and> (toUpperCase name = toUpperCase name' \<longrightarrow>
        isDangerousHostEnvVarName policy name = isDangerousHostEnvVarName policy name')
   \<and> (\<forall>k. toUpperCase k = ''PATH'' \<longrightarrow>
        sanitizeHostExecEnv policy baseEnv overrides None k =
          sanitizeHostExecEnv policy baseEnv None None k
        \<and> sanitizeHostExecEnv policy baseEnv overrides (Some True) k =
          sanitizeHostExecEnv policy baseEnv None None k)"
proof (intro conjI impI)
  show "\<forall>k \<in> dom (sanitizeHostExecEnv policy baseEnv overrides blockPathOverrides).
      \<not> isDangerousHostEnvVarName policy k"
    using sanitizeHostExecEnv_keys_and_path by blast
next
  assume u: "toUpperCase name = toUpperCase name'"
  have "isDangerousHostEnvVarName policy name = isDangerousHostEnvVarName policy (toUpperCase name)"
    by (simp add: isDangerous_toUpperCase)
  also have "\<dots> = isDangerousHostEnvVarName policy (toUpperCase name')"
    by (simp only: u)
  also have "\<dots> = isDangerousHostEnvVarName policy name'"
    by (simp add: isDangerous_toUpperCase)
  finally show "isDangerousHostEnvVarName policy name = isDangerousHostEnvVarName policy name'" .
next
  show "\<forall>k. toUpperCase k = ''PATH'' \<longrightarrow>
        sanitizeHostExecEnv policy baseEnv overrides None k =
          sanitizeHostExecEnv policy baseEnv None None k
        \<and> sanitizeHostExecEnv policy baseEnv overrides (Some True) k =
          sanitizeHostExecEnv policy baseEnv None None k"
    using sanitizeHostExecEnv_keys_and_path by blast
qed

theorem sanitizeHostExecEnv_safe_witness:
  "sanitizeHostExecEnv examplePolicy exampleBaseEnv (Some exampleOverrides) None ''SAFE'' = Some ''ok''
   \<and> \<not> isDangerousHostEnvVarName examplePolicy ''SAFE''
   \<and> sanitizeHostExecEnv examplePolicy exampleBaseEnv (Some exampleOverrides) None ''BASH_ENV'' = None
   \<and> sanitizeHostExecEnv examplePolicy exampleBaseEnv (Some exampleOverrides) None ''PATH''
       = Some ''/usr/bin:/bin''
   \<and> isDangerousHostEnvVarName examplePolicy ''bash_env''"
proof -
  note inst = sanitizeHostExecEnv_safe [where policy = examplePolicy and baseEnv = exampleBaseEnv
      and overrides = "Some exampleOverrides" and blockPathOverrides = None]
  have s: "sanitizeHostExecEnv examplePolicy exampleBaseEnv (Some exampleOverrides) None ''SAFE'' = Some ''ok''"
    by code_simp
  then have "''SAFE'' \<in> dom (sanitizeHostExecEnv examplePolicy exampleBaseEnv (Some exampleOverrides) None)"
    by blast
  with inst have ns: "\<not> isDangerousHostEnvVarName examplePolicy ''SAFE''"
    by blast
  have d: "isDangerousHostEnvVarName examplePolicy ''BASH_ENV''"
    by code_simp
  with inst have "''BASH_ENV'' \<notin> dom (sanitizeHostExecEnv examplePolicy exampleBaseEnv (Some exampleOverrides) None)"
    by blast
  then have b: "sanitizeHostExecEnv examplePolicy exampleBaseEnv (Some exampleOverrides) None ''BASH_ENV'' = None"
    by blast
  have u: "toUpperCase ''PATH'' = ''PATH''"
    by code_simp
  have p0: "sanitizeHostExecEnv examplePolicy exampleBaseEnv None None ''PATH'' = Some ''/usr/bin:/bin''"
    by code_simp
  from inst u have "sanitizeHostExecEnv examplePolicy exampleBaseEnv (Some exampleOverrides) None ''PATH''
      = sanitizeHostExecEnv examplePolicy exampleBaseEnv None None ''PATH''"
    by blast
  with p0 have p: "sanitizeHostExecEnv examplePolicy exampleBaseEnv (Some exampleOverrides) None ''PATH''
      = Some ''/usr/bin:/bin''"
    by simp
  have uu: "toUpperCase ''bash_env'' = toUpperCase ''BASH_ENV''"
    by code_simp
  have l: "isDangerousHostEnvVarName examplePolicy ''bash_env''"
    using sanitizeHostExecEnv_safe [where policy = examplePolicy and name = "''bash_env''"
        and name' = "''BASH_ENV''"] uu d
    by blast
  from s ns b p l show ?thesis by blast
qed


section \<open>The allowed model set\<close>

lemma addDefault_mem: "defaultKey = Some k \<Longrightarrow> k \<in> addDefault defaultKey keys"
  by (simp add: addDefault_def)

lemma buildAllowedModelSet_allowedKeys:
  "allowedKeys (buildAllowedModelSet cfg catalog dp dm) =
     addDefault (defaultKeyOf dp dm)
       (if allowAny (buildAllowedModelSet cfg catalog dp dm) then catalogKeysOf catalog
        else validatedKeys (map fst (agentModels cfg)) dp (catalogKeysOf catalog))"
  by (simp add: buildAllowedModelSet_def Let_def)

lemma buildAllowedModelSet_allowAny:
  "allowAny (buildAllowedModelSet cfg catalog dp dm) \<longleftrightarrow>
     agentModels cfg = []
     \<or> filter (\<lambda>entry. modelKey (provider entry) (entryId entry)
            \<in> addDefault (defaultKeyOf dp dm)
                (validatedKeys (map fst (agentModels cfg)) dp (catalogKeysOf catalog))) catalog = []"
  by (simp add: buildAllowedModelSet_def Let_def)

lemma parse_gpt4: "parseModelRef ''openai/gpt-4'' ''claude-cli'' = Some \<lparr>refProvider = ''openai'', refModel = ''gpt-4''\<rparr>"
  by code_simp

lemma default_opus: "defaultKeyOf ''claude-cli'' (Some ''opus-4.5'') = Some ''claude-cli/opus-4.5''"
  by code_simp

lemma example_allowlist:
  assumes "''openai/gpt-4'' \<in> catalogKeysOf catalog"
  shows "buildAllowedModelSet \<lparr>agentModels = [(''openai/gpt-4'', al)], agentModel = am\<rparr>
           catalog ''claude-cli'' (Some ''opus-4.5'') =
         \<lparr>allowAny = False,
          allowedCatalog = filter (\<lambda>entry. modelKey (provider entry) (entryId entry)
             \<in> {''claude-cli/opus-4.5'', ''openai/gpt-4''}) catalog,
          allowedKeys = {''claude-cli/opus-4.5'', ''openai/gpt-4''}\<rparr>"
proof -
  have v: "validatedKeys [''openai/gpt-4''] ''claude-cli'' (catalogKeysOf catalog) = {''openai/gpt-4''}"
    using assms by (simp add: validatedKeys_def parse_gpt4 modelKey_def)
  obtain e where e: "e \<in> set catalog" "modelKey (provider e) (entryId e) = ''openai/gpt-4''"
    using assms by (auto simp: catalogKeysOf_def)
  then have ne: "filter (\<lambda>entry. modelKey (provider entry) (entryId entry)
             \<in> {''claude-cli/opus-4.5'', ''openai/gpt-4''}) catalog \<noteq> []"
    by (auto simp: filter_empty_conv)
  show ?thesis
    using ne by (simp add: buildAllowedModelSet_def Let_def v default_opus addDefault_def)
qed

text \<open>
  Claim C5. Whenever a default key exists (a non-blank default model and a non-empty
  default provider), it is in the allowed keys returned by \<open>buildAllowedModelSet\<close>,
  whatever the allowlist and the catalog are. With the allowlist \<open>openai/gpt-4\<close>, the
  default \<open>claude-cli/opus-4.5\<close> and a catalog that knows \<open>openai/gpt-4\<close>, the set
  holds both keys and not \<open>openai/gpt-3.5\<close>, and \<open>allowAny\<close> is false. Whenever
  the catalog filtered by the validated allowlist and the default is empty, the function
  returns \<open>allowAny = true\<close> with the whole catalog; it never returns
  \<open>allowAny = false\<close> with an empty allowed catalog.
\<close>

theorem buildAllowedModelSet_default_and_fail_open:
  "(trim dm \<noteq> [] \<and> dp \<noteq> [] \<longrightarrow>
      modelKey dp (trim dm) \<in> allowedKeys (buildAllowedModelSet cfg catalog dp (Some dm)))
   \<and> (''openai/gpt-4'' \<in> catalogKeysOf catalog \<longrightarrow>
       (let r = buildAllowedModelSet \<lparr>agentModels = [(''openai/gpt-4'', al)], agentModel = am\<rparr>
                  catalog ''claude-cli'' (Some ''opus-4.5'') in
        \<not> allowAny r \<and> ''openai/gpt-4'' \<in> allowedKeys r
        \<and> ''claude-cli/opus-4.5'' \<in> allowedKeys r \<and> ''openai/gpt-3.5'' \<notin> allowedKeys r))
   \<and> (filter (\<lambda>entry. modelKey (provider entry) (entryId entry)
            \<in> addDefault (defaultKeyOf dp dmo)
                (validatedKeys (map fst (agentModels cfg)) dp (catalogKeysOf catalog))) catalog = []
        \<longrightarrow> allowAny (buildAllowedModelSet cfg catalog dp dmo)
          \<and> allowedCatalog (buildAllowedModelSet cfg catalog dp dmo) = catalog
          \<and> allowedKeys (buildAllowedModelSet cfg catalog dp dmo) =
              addDefault (defaultKeyOf dp dmo) (catalogKeysOf catalog))
   \<and> (\<not> allowAny (buildAllowedModelSet cfg catalog dp dmo) \<longrightarrow>
        allowedCatalog (buildAllowedModelSet cfg catalog dp dmo) \<noteq> [])"
proof (intro conjI impI)
  assume "trim dm \<noteq> [] \<and> dp \<noteq> []"
  then have "defaultKeyOf dp (Some dm) = Some (modelKey dp (trim dm))"
    by (simp add: defaultKeyOf_def)
  then show "modelKey dp (trim dm) \<in> allowedKeys (buildAllowedModelSet cfg catalog dp (Some dm))"
    by (simp add: buildAllowedModelSet_allowedKeys addDefault_mem)
next
  assume "''openai/gpt-4'' \<in> catalogKeysOf catalog"
  then show "let r = buildAllowedModelSet \<lparr>agentModels = [(''openai/gpt-4'', al)], agentModel = am\<rparr>
                  catalog ''claude-cli'' (Some ''opus-4.5'') in
        \<not> allowAny r \<and> ''openai/gpt-4'' \<in> allowedKeys r
        \<and> ''claude-cli/opus-4.5'' \<in> allowedKeys r \<and> ''openai/gpt-3.5'' \<notin> allowedKeys r"
    by (simp add: example_allowlist)
next
  assume e: "filter (\<lambda>entry. modelKey (provider entry) (entryId entry)
            \<in> addDefault (defaultKeyOf dp dmo)
                (validatedKeys (map fst (agentModels cfg)) dp (catalogKeysOf catalog))) catalog = []"
  then show "allowAny (buildAllowedModelSet cfg catalog dp dmo)"
    by (simp add: buildAllowedModelSet_allowAny)
  from e show "allowedCatalog (buildAllowedModelSet cfg catalog dp dmo) = catalog"
    by (simp add: buildAllowedModelSet_def Let_def)
  from e show "allowedKeys (buildAllowedModelSet cfg catalog dp dmo) =
              addDefault (defaultKeyOf dp dmo) (catalogKeysOf catalog)"
    by (simp add: buildAllowedModelSet_def Let_def)
next
  assume "\<not> allowAny (buildAllowedModelSet cfg catalog dp dmo)"
  then show "allowedCatalog (buildAllowedModelSet cfg catalog dp dmo) \<noteq> []"
    by (auto simp: buildAllowedModelSet_def Let_def split: if_splits)
qed

theorem buildAllowedModelSet_default_and_fail_open_witness:
  "''claude-cli/opus-4.5'' \<in> allowedKeys (buildAllowedModelSet gptOnlyConfig gptCatalog ''claude-cli'' (Some ''opus-4.5''))
   \<and> ''openai/gpt-4'' \<in> allowedKeys (buildAllowedModelSet gptOnlyConfig gptCatalog ''claude-cli'' (Some ''opus-4.5''))
   \<and> ''openai/gpt-3.5'' \<notin> allowedKeys (buildAllowedModelSet gptOnlyConfig gptCatalog ''claude-cli'' (Some ''opus-4.5''))
   \<and> \<not> allowAny (buildAllowedModelSet gptOnlyConfig gptCatalog ''claude-cli'' (Some ''opus-4.5''))
   \<and> allowedCatalog (buildAllowedModelSet gptOnlyConfig gptCatalog ''claude-cli'' (Some ''opus-4.5'')) \<noteq> []
   \<and> allowAny (buildAllowedModelSet unknownOnlyConfig gptCatalog ''claude-cli'' (Some ''opus-4.5''))
   \<and> allowedCatalog (buildAllowedModelSet unknownOnlyConfig gptCatalog ''claude-cli'' (Some ''opus-4.5'')) = gptCatalog"
proof -
  have t: "trim ''opus-4.5'' = ''opus-4.5''" by code_simp
  have k: "modelKey ''claude-cli'' ''opus-4.5'' = ''claude-cli/opus-4.5''" by code_simp
  have c: "''openai/gpt-4'' \<in> catalogKeysOf gptCatalog" by code_simp
  have p: "parseModelRef ''openai/gpt-5'' ''claude-cli'' = Some \<lparr>refProvider = ''openai'', refModel = ''gpt-5''\<rparr>"
    by code_simp
  have f: "filter (\<lambda>entry. modelKey (provider entry) (entryId entry)
            \<in> addDefault (defaultKeyOf ''claude-cli'' (Some ''opus-4.5''))
                (validatedKeys (map fst (agentModels unknownOnlyConfig)) ''claude-cli''
                  (catalogKeysOf gptCatalog))) gptCatalog = []"
    by (simp add: unknownOnlyConfig_def gptCatalog_def validatedKeys_def p catalogKeysOf_def
        modelKey_def default_opus addDefault_def)
  note a = buildAllowedModelSet_default_and_fail_open [where dm = "''opus-4.5''" and dp = "''claude-cli''"
      and cfg = gptOnlyConfig and catalog = gptCatalog and al = "Some ''gpt4''" and am = None
      and dmo = "Some ''opus-4.5''"]
  note b = buildAllowedModelSet_default_and_fail_open [where dm = "''opus-4.5''" and dp = "''claude-cli''"
      and cfg = unknownOnlyConfig and catalog = gptCatalog and al = "Some ''gpt4''" and am = None
      and dmo = "Some ''opus-4.5''"]
  have 1: "''claude-cli/opus-4.5'' \<in> allowedKeys (buildAllowedModelSet gptOnlyConfig gptCatalog ''claude-cli'' (Some ''opus-4.5''))"
    using a by (simp add: t k)
  have 2: "''openai/gpt-4'' \<in> allowedKeys (buildAllowedModelSet gptOnlyConfig gptCatalog ''claude-cli'' (Some ''opus-4.5''))
    \<and> ''openai/gpt-3.5'' \<notin> allowedKeys (buildAllowedModelSet gptOnlyConfig gptCatalog ''claude-cli'' (Some ''opus-4.5''))
    \<and> \<not> allowAny (buildAllowedModelSet gptOnlyConfig gptCatalog ''claude-cli'' (Some ''opus-4.5''))"
    using a c unfolding gptOnlyConfig_def Let_def by blast
  then have 3: "allowedCatalog (buildAllowedModelSet gptOnlyConfig gptCatalog ''claude-cli'' (Some ''opus-4.5'')) \<noteq> []"
    using a by blast
  have 4: "allowAny (buildAllowedModelSet unknownOnlyConfig gptCatalog ''claude-cli'' (Some ''opus-4.5''))
    \<and> allowedCatalog (buildAllowedModelSet unknownOnlyConfig gptCatalog ''claude-cli'' (Some ''opus-4.5'')) = gptCatalog"
    using b f by blast
  from 1 2 3 4 show ?thesis by blast
qed

section \<open>Session store handlers: write-once and reset\<close>

lemma andThen_Inl: "andThen (Inl e) f = Inl e"
  by (simp add: andThen_def)

lemma applyPatch_spawnedBy_error:
  "patchSpawnedByStep (patchSpawnedBy p) primaryKey existing (initialNext env existing) = Inl msg
   \<Longrightarrow> applyPatch env p primaryKey existing = Inl msg"
  by (simp add: applyPatch_def andThen_Inl)

lemma sessionsPatch_failure_keeps_store:
  "snd (sessionsPatch env p disk) = Failure c m \<Longrightarrow> fst (sessionsPatch env p disk) = disk"
  by (auto simp: sessionsPatch_def Let_def split: if_splits sum.splits)

lemma sessionsPatch_spawnedBy_error:
  assumes "patchSpawnedByStep (patchSpawnedBy p)
             (primaryKeyOf (resolveGatewaySessionStoreTarget env (trim (orEmpty (patchKey p))))
                (trim (orEmpty (patchKey p))))
             (existingEntry env (trim (orEmpty (patchKey p))) disk)
             (initialNext env (existingEntry env (trim (orEmpty (patchKey p))) disk)) = Inl msg"
  shows "(\<exists>m. sessionsPatch env p disk = (disk, Failure INVALID_REQUEST m))
     \<and> (paramsValid env \<and> trim (orEmpty (patchKey p)) \<noteq> [] \<longrightarrow>
          sessionsPatch env p disk = (disk, Failure INVALID_REQUEST msg))"
  using applyPatch_spawnedBy_error [OF assms [unfolded existingEntry_def Let_def]]
  by (simp add: sessionsPatch_def Let_def)

lemma andThen_Inr: "andThen r f = Inr y \<Longrightarrow> \<exists>x. r = Inr x \<and> f x = Inr y"
  by (cases r) (simp_all add: andThen_def)

lemma patchLevelStep_spawnedBy:
  assumes "patchLevelStep field normalizer message setField x = Inr y"
    and "\<And>v z. spawnedBy (setField v z) = spawnedBy z"
  shows "spawnedBy y = spawnedBy x"
  using assms by (auto simp: patchLevelStep_def split: Field.splits option.splits if_splits)

lemma patchPolicyStep_spawnedBy:
  assumes "patchPolicyStep field normalizer message setField x = Inr y"
    and "\<And>v z. spawnedBy (setField v z) = spawnedBy z"
  shows "spawnedBy y = spawnedBy x"
  using assms by (auto simp: patchPolicyStep_def split: Field.splits option.splits)

lemma patchModelStep_spawnedBy:
  "patchModelStep env field x = Inr y \<Longrightarrow> spawnedBy y = spawnedBy x"
  by (auto simp: patchModelStep_def Let_def split: Field.splits option.splits if_splits)

lemma patchSpawnedByStep_keeps:
  assumes "patchSpawnedByStep field primaryKey (Some e) (initialNext env (Some e)) = Inr y"
    and "truthy (spawnedBy e)"
  shows "spawnedBy y = spawnedBy e"
  using assms
  by (auto simp: patchSpawnedByStep_def initialNext_def Let_def split: Field.splits if_splits)

lemma applyPatch_keeps_spawnedBy:
  assumes "applyPatch env p primaryKey (Some e) = Inr y" and "truthy (spawnedBy e)"
  shows "spawnedBy y = spawnedBy e"
proof -
  from assms(1) obtain x1 x2 x3 x4 x5 x6 x7 where
    s1: "patchSpawnedByStep (patchSpawnedBy p) primaryKey (Some e) (initialNext env (Some e)) = Inr x1"
    and s2: "patchLevelStep (patchThinkingLevel p) (normalizeThinkLevel env)
          ''invalid thinkingLevel (use off|minimal|low|medium|high)''
          (\<lambda>v e. e\<lparr>thinkingLevel := v\<rparr>) x1 = Inr x2"
    and s3: "patchLevelStep (patchVerboseLevel p) (normalizeVerboseLevel env)
          ''invalid verboseLevel (use \"on\"|\"off\")''
          (\<lambda>v e. e\<lparr>verboseLevel := v\<rparr>) x2 = Inr x3"
    and s4: "patchLevelStep (patchReasoningLevel p) (normalizeReasoningLevel env)
          ''invalid reasoningLevel (use \"on\"|\"off\"|\"stream\")''
          (\<lambda>v e. e\<lparr>reasoningLevel := v\<rparr>) x3 = Inr x4"
    and s5: "patchLevelStep (patchResponseUsage p) (normalizeUsageDisplay env)
          ''invalid responseUsage (use \"on\"|\"off\")''
          (\<lambda>v e. e\<lparr>responseUsage := v\<rparr>) x4 = Inr x5"
    and s6: "patchModelStep env (patchModel p) x5 = Inr x6"
    and s7: "patchPolicyStep (patchSendPolicy p) (normalizeSendPolicy env)
          ''invalid sendPolicy (use \"allow\"|\"deny\")''
          (\<lambda>v e. e\<lparr>sendPolicy := v\<rparr>) x6 = Inr x7"
    and s8: "patchPolicyStep (patchGroupActivation p) (normalizeGroupActivation env)
          ''invalid groupActivation (use \"mention\"|\"always\")''
          (\<lambda>v e. e\<lparr>groupActivation := v\<rparr>) x7 = Inr y"
    unfolding applyPatch_def by (blast dest!: andThen_Inr)
  have "spawnedBy x1 = spawnedBy e"
    using s1 assms(2) by (rule patchSpawnedByStep_keeps)
  moreover have "spawnedBy x2 = spawnedBy x1"
    using s2 by (rule patchLevelStep_spawnedBy) simp
  moreover have "spawnedBy x3 = spawnedBy x2"
    using s3 by (rule patchLevelStep_spawnedBy) simp
  moreover have "spawnedBy x4 = spawnedBy x3"
    using s4 by (rule patchLevelStep_spawnedBy) simp
  moreover have "spawnedBy x5 = spawnedBy x4"
    using s5 by (rule patchLevelStep_spawnedBy) simp
  moreover have "spawnedBy x6 = spawnedBy x5"
    using s6 by (rule patchModelStep_spawnedBy)
  moreover have "spawnedBy x7 = spawnedBy x6"
    using s7 by (rule patchPolicyStep_spawnedBy) simp
  moreover have "spawnedBy y = spawnedBy x7"
    using s8 by (rule patchPolicyStep_spawnedBy) simp
  ultimately show ?thesis by simp
qed

lemma sessionsPatch_keeps_spawnedBy:
  assumes "snd (sessionsPatch env p disk) = Patched path k next"
    and "existingEntry env (trim (orEmpty (patchKey p))) disk = Some e"
    and "truthy (spawnedBy e)"
  shows "spawnedBy next = spawnedBy e
    \<and> fst (sessionsPatch env p disk)
         (primaryKeyOf (resolveGatewaySessionStoreTarget env (trim (orEmpty (patchKey p))))
            (trim (orEmpty (patchKey p)))) = Some next"
proof -
  let ?key = "trim (orEmpty (patchKey p))"
  let ?target = "resolveGatewaySessionStoreTarget env ?key"
  let ?primary = "primaryKeyOf ?target ?key"
  from assms(1) have v: "paramsValid env" and k: "?key \<noteq> []"
    by (auto simp: sessionsPatch_def Let_def split: if_splits)
  from assms(2) have ex: "migrateToPrimary ?target ?key disk ?primary = Some e"
    by (simp add: existingEntry_def Let_def)
  from assms(1) v k ex have a: "applyPatch env p ?primary (Some e) = Inr next"
    by (auto simp: sessionsPatch_def Let_def split: sum.splits)
  then have "spawnedBy next = spawnedBy e"
    using assms(3) by (rule applyPatch_keeps_spawnedBy)
  moreover have "fst (sessionsPatch env p disk) ?primary = Some next"
    using v k ex a by (simp add: sessionsPatch_def Let_def)
  ultimately show ?thesis by simp
qed

text \<open>
  Claim C4. In \<open>sessions.patch\<close>, \<open>spawnedBy\<close> is write-once. A patch with
  \<open>spawnedBy: null\<close> on an entry whose \<open>spawnedBy\<close> is set, a patch with a value
  that after trimming differs from the stored one, and a patch with a value on a key that
  is not a subagent key each end in an \<open>INVALID_REQUEST\<close> error; for valid
  parameters and a non-empty key the message is the one of that check. Whenever the
  handler responds with an error, the store file is what it was; and whenever it
  succeeds on an entry whose \<open>spawnedBy\<close> is set, the entry keeps that value.
\<close>

theorem sessionsPatch_spawnedBy_write_once:
  "(patchSpawnedBy p = Null
      \<and> existingEntry env (trim (orEmpty (patchKey p))) disk = Some e \<and> truthy (spawnedBy e) \<longrightarrow>
        (\<exists>m. sessionsPatch env p disk = (disk, Failure INVALID_REQUEST m))
        \<and> (paramsValid env \<and> trim (orEmpty (patchKey p)) \<noteq> [] \<longrightarrow>
             sessionsPatch env p disk =
               (disk, Failure INVALID_REQUEST ''spawnedBy cannot be cleared once set'')))
   \<and> (patchSpawnedBy p = Val raw
      \<and> existingEntry env (trim (orEmpty (patchKey p))) disk = Some e \<and> truthy (spawnedBy e)
      \<and> spawnedBy e \<noteq> Some (trim raw) \<longrightarrow>
        (\<exists>m. sessionsPatch env p disk = (disk, Failure INVALID_REQUEST m))
        \<and> (paramsValid env \<and> trim (orEmpty (patchKey p)) \<noteq> [] \<and> trim raw \<noteq> []
             \<and> isSubagentSessionKey (Some (primaryKeyOf
                  (resolveGatewaySessionStoreTarget env (trim (orEmpty (patchKey p))))
                  (trim (orEmpty (patchKey p))))) \<longrightarrow>
             sessionsPatch env p disk =
               (disk, Failure INVALID_REQUEST ''spawnedBy cannot be changed once set'')))
   \<and> (patchSpawnedBy p = Val raw
      \<and> \<not> isSubagentSessionKey (Some (primaryKeyOf
              (resolveGatewaySessionStoreTarget env (trim (orEmpty (patchKey p))))
              (trim (orEmpty (patchKey p))))) \<longrightarrow>
        (\<exists>m. sessionsPatch env p disk = (disk, Failure INVALID_REQUEST m))
        \<and> (paramsValid env \<and> trim (orEmpty (patchKey p)) \<noteq> [] \<and> trim raw \<noteq> [] \<longrightarrow>
             sessionsPatch env p disk =
               (disk, Failure INVALID_REQUEST
                  ''spawnedBy is only supported for subagent:* sessions'')))
   \<and> (snd (sessionsPatch env p disk) = Failure c m \<longrightarrow> fst (sessionsPatch env p disk) = disk)
   \<and> (snd (sessionsPatch env p disk) = Patched path k patched
      \<and> existingEntry env (trim (orEmpty (patchKey p))) disk = Some e \<and> truthy (spawnedBy e) \<longrightarrow>
        spawnedBy patched = spawnedBy e)"
proof (intro conjI impI)
  assume a: "patchSpawnedBy p = Null
      \<and> existingEntry env (trim (orEmpty (patchKey p))) disk = Some e \<and> truthy (spawnedBy e)"
  then have s: "patchSpawnedByStep (patchSpawnedBy p)
             (primaryKeyOf (resolveGatewaySessionStoreTarget env (trim (orEmpty (patchKey p))))
                (trim (orEmpty (patchKey p))))
             (existingEntry env (trim (orEmpty (patchKey p))) disk)
             (initialNext env (existingEntry env (trim (orEmpty (patchKey p))) disk))
           = Inl ''spawnedBy cannot be cleared once set''"
    by (simp add: patchSpawnedByStep_def)
  show "\<exists>m. sessionsPatch env p disk = (disk, Failure INVALID_REQUEST m)"
    using sessionsPatch_spawnedBy_error [OF s] by blast
  show "sessionsPatch env p disk =
      (disk, Failure INVALID_REQUEST ''spawnedBy cannot be cleared once set'')"
    if "paramsValid env \<and> trim (orEmpty (patchKey p)) \<noteq> []"
    using sessionsPatch_spawnedBy_error [OF s] that by blast
next
  assume a: "patchSpawnedBy p = Val raw
      \<and> existingEntry env (trim (orEmpty (patchKey p))) disk = Some e \<and> truthy (spawnedBy e)
      \<and> spawnedBy e \<noteq> Some (trim raw)"
  then have "\<exists>msg. patchSpawnedByStep (patchSpawnedBy p)
             (primaryKeyOf (resolveGatewaySessionStoreTarget env (trim (orEmpty (patchKey p))))
                (trim (orEmpty (patchKey p))))
             (existingEntry env (trim (orEmpty (patchKey p))) disk)
             (initialNext env (existingEntry env (trim (orEmpty (patchKey p))) disk))
           = Inl msg"
    by (simp add: patchSpawnedByStep_def Let_def)
  then show "\<exists>m. sessionsPatch env p disk = (disk, Failure INVALID_REQUEST m)"
    using sessionsPatch_spawnedBy_error by blast
  show "sessionsPatch env p disk =
      (disk, Failure INVALID_REQUEST ''spawnedBy cannot be changed once set'')"
    if h: "paramsValid env \<and> trim (orEmpty (patchKey p)) \<noteq> [] \<and> trim raw \<noteq> []
             \<and> isSubagentSessionKey (Some (primaryKeyOf
                  (resolveGatewaySessionStoreTarget env (trim (orEmpty (patchKey p))))
                  (trim (orEmpty (patchKey p)))))"
  proof -
    have "patchSpawnedByStep (patchSpawnedBy p)
             (primaryKeyOf (resolveGatewaySessionStoreTarget env (trim (orEmpty (patchKey p))))
                (trim (orEmpty (patchKey p))))
             (existingEntry env (trim (orEmpty (patchKey p))) disk)
             (initialNext env (existingEntry env (trim (orEmpty (patchKey p))) disk))
           = Inl ''spawnedBy cannot be changed once set''"
      using a h by (simp add: patchSpawnedByStep_def Let_def)
    then show ?thesis
      using sessionsPatch_spawnedBy_error h by blast
  qed
next
  assume a: "patchSpawnedBy p = Val raw
      \<and> \<not> isSubagentSessionKey (Some (primaryKeyOf
              (resolveGatewaySessionStoreTarget env (trim (orEmpty (patchKey p))))
              (trim (orEmpty (patchKey p)))))"
  then have "\<exists>msg. patchSpawnedByStep (patchSpawnedBy p)
             (primaryKeyOf (resolveGatewaySessionStoreTarget env (trim (orEmpty (patchKey p))))
                (trim (orEmpty (patchKey p))))
             (existingEntry env (trim (orEmpty (patchKey p))) disk)
             (initialNext env (existingEntry env (trim (orEmpty (patchKey p))) disk))
           = Inl msg"
    by (simp add: patchSpawnedByStep_def Let_def)
  then show "\<exists>m. sessionsPatch env p disk = (disk, Failure INVALID_REQUEST m)"
    using sessionsPatch_spawnedBy_error by blast
  show "sessionsPatch env p disk =
      (disk, Failure INVALID_REQUEST ''spawnedBy is only supported for subagent:* sessions'')"
    if h: "paramsValid env \<and> trim (orEmpty (patchKey p)) \<noteq> [] \<and> trim raw \<noteq> []"
  proof -
    have "patchSpawnedByStep (patchSpawnedBy p)
             (primaryKeyOf (resolveGatewaySessionStoreTarget env (trim (orEmpty (patchKey p))))
                (trim (orEmpty (patchKey p))))
             (existingEntry env (trim (orEmpty (patchKey p))) disk)
             (initialNext env (existingEntry env (trim (orEmpty (patchKey p))) disk))
           = Inl ''spawnedBy is only supported for subagent:* sessions''"
      using a h by (simp add: patchSpawnedByStep_def Let_def)
    then show ?thesis
      using sessionsPatch_spawnedBy_error h by blast
  qed
next
  assume "snd (sessionsPatch env p disk) = Failure c m"
  then show "fst (sessionsPatch env p disk) = disk"
    by (rule sessionsPatch_failure_keeps_store)
next
  assume "snd (sessionsPatch env p disk) = Patched path k patched
      \<and> existingEntry env (trim (orEmpty (patchKey p))) disk = Some e \<and> truthy (spawnedBy e)"
  then show "spawnedBy patched = spawnedBy e"
    using sessionsPatch_keeps_spawnedBy by blast
qed

text \<open>
  Claim C3, as amended. For an existing entry, \<open>sessions.reset\<close> stores and returns an
  entry whose \<open>sessionId\<close> is the UUID drawn by \<open>randomUUID()\<close> for this call; the
  prior \<open>sessionId\<close> is not read, so the new entry is the same whatever the prior id
  was. The entry keeps \<open>sendPolicy\<close>, \<open>thinkingLevel\<close> and \<open>skillsSnapshot\<close>, and
  has \<open>abortedLastRun\<close> and \<open>systemSent\<close> false.
\<close>

theorem sessionsReset_entry:
  "paramsValid env \<Longrightarrow> trim (orEmpty (resetKey p)) \<noteq> [] \<Longrightarrow>
   existingEntry env (trim (orEmpty (resetKey p))) disk = Some e \<Longrightarrow>
   (\<exists>next. snd (sessionsReset env p disk) =
        ResetDone (canonicalKey (resolveGatewaySessionStoreTarget env (trim (orEmpty (resetKey p))))) next
      \<and> fst (sessionsReset env p disk)
          (primaryKeyOf (resolveGatewaySessionStoreTarget env (trim (orEmpty (resetKey p))))
             (trim (orEmpty (resetKey p)))) = Some next
      \<and> sessionId next = randomUUID env
      \<and> resetEntry env (Some (e\<lparr>sessionId := prior\<rparr>)) = next
      \<and> sendPolicy next = sendPolicy e
      \<and> thinkingLevel next = thinkingLevel e
      \<and> skillsSnapshot next = skillsSnapshot e
      \<and> abortedLastRun next = Some False
      \<and> systemSent next = Some False)"
  by (simp add: sessionsReset_def Let_def existingEntry_def resetEntry_def)

lemma example_key: "trim (orEmpty (patchKey (patchOf ''agent:main:subagent:worker'' f))) = ''agent:main:subagent:worker''"
  by (simp add: patchOf_def orEmpty_def trim_def isWhiteSpace_def)

lemma example_main_key: "trim (orEmpty (patchKey (patchOf ''agent:main:main'' f))) = ''agent:main:main''"
  by (simp add: patchOf_def orEmpty_def trim_def isWhiteSpace_def)

lemma example_existing: "existingEntry exampleEnv ''agent:main:subagent:worker'' exampleStore = Some workerEntry"
  by (simp add: existingEntry_def exampleEnv_def migrateToPrimary_def primaryKeyOf_def exampleStore_def)

lemma example_primary: "primaryKeyOf (resolveGatewaySessionStoreTarget exampleEnv k) k = k"
  by (simp add: exampleEnv_def primaryKeyOf_def)

lemma example_subagent: "isSubagentSessionKey (Some ''agent:main:subagent:worker'')"
  by code_simp

lemma example_not_subagent: "\<not> isSubagentSessionKey (Some ''agent:main:main'')"
  by code_simp

theorem sessionsPatch_spawnedBy_write_once_witness:
  "sessionsPatch exampleEnv (patchOf ''agent:main:subagent:worker'' Null) exampleStore =
     (exampleStore, Failure INVALID_REQUEST ''spawnedBy cannot be cleared once set'')
   \<and> sessionsPatch exampleEnv (patchOf ''agent:main:subagent:worker'' (Val ''agent:other:main'')) exampleStore =
     (exampleStore, Failure INVALID_REQUEST ''spawnedBy cannot be changed once set'')
   \<and> sessionsPatch exampleEnv (patchOf ''agent:main:main'' (Val ''agent:main:main'')) exampleStore =
     (exampleStore, Failure INVALID_REQUEST ''spawnedBy is only supported for subagent:* sessions'')
   \<and> fst (sessionsPatch exampleEnv (patchOf ''agent:main:subagent:worker'' Null) exampleStore) = exampleStore
   \<and> snd (sessionsPatch exampleEnv (patchOf ''agent:main:subagent:worker'' (Val '' agent:main:main ''))
        exampleStore) =
       Patched ''sessions.json'' ''agent:main:subagent:worker'' (workerEntry\<lparr>updatedAt := Some 2000\<rparr>)
   \<and> spawnedBy (workerEntry\<lparr>updatedAt := Some 2000\<rparr>) = Some ''agent:main:main''"
proof -
  have v: "paramsValid exampleEnv" by (simp add: exampleEnv_def)
  have t: "truthy (spawnedBy workerEntry)" by (simp add: workerEntry_def truthy_def)
  have tr: "trim ''agent:other:main'' = ''agent:other:main''" "trim ''agent:main:main'' = ''agent:main:main''"
    by code_simp+
  have ne: "spawnedBy workerEntry \<noteq> Some ''agent:other:main''" by (simp add: workerEntry_def)
  have 1: "sessionsPatch exampleEnv (patchOf ''agent:main:subagent:worker'' Null) exampleStore =
     (exampleStore, Failure INVALID_REQUEST ''spawnedBy cannot be cleared once set'')"
    using sessionsPatch_spawnedBy_write_once [where env = exampleEnv and disk = exampleStore
        and p = "patchOf ''agent:main:subagent:worker'' Null" and e = workerEntry
        and raw = "[]" and c = INVALID_REQUEST and m = "[]" and path = "[]" and k = "[]"
        and patched = workerEntry]
      v t example_existing
    by (simp add: example_key) (simp add: patchOf_def)
  have 2: "sessionsPatch exampleEnv (patchOf ''agent:main:subagent:worker'' (Val ''agent:other:main'')) exampleStore =
     (exampleStore, Failure INVALID_REQUEST ''spawnedBy cannot be changed once set'')"
    using sessionsPatch_spawnedBy_write_once [where env = exampleEnv and disk = exampleStore
        and p = "patchOf ''agent:main:subagent:worker'' (Val ''agent:other:main'')"
        and e = workerEntry and raw = "''agent:other:main''"
        and c = INVALID_REQUEST and m = "[]" and path = "[]" and k = "[]" and patched = workerEntry]
      v t ne example_existing example_subagent
    by (simp add: example_key example_primary tr) (simp add: patchOf_def)
  have 3: "sessionsPatch exampleEnv (patchOf ''agent:main:main'' (Val ''agent:main:main'')) exampleStore =
     (exampleStore, Failure INVALID_REQUEST ''spawnedBy is only supported for subagent:* sessions'')"
    using sessionsPatch_spawnedBy_write_once [where env = exampleEnv and disk = exampleStore
        and p = "patchOf ''agent:main:main'' (Val ''agent:main:main'')"
        and raw = "''agent:main:main''" and e = workerEntry
        and c = INVALID_REQUEST and m = "[]" and path = "[]" and k = "[]" and patched = workerEntry]
      v example_not_subagent
    by (simp add: example_main_key example_primary tr) (simp add: patchOf_def)
  have 4: "fst (sessionsPatch exampleEnv (patchOf ''agent:main:subagent:worker'' Null) exampleStore) = exampleStore"
    using sessionsPatch_spawnedBy_write_once [where env = exampleEnv and disk = exampleStore
        and p = "patchOf ''agent:main:subagent:worker'' Null" and c = INVALID_REQUEST
        and m = "''spawnedBy cannot be cleared once set''" and e = workerEntry and raw = "[]"
        and path = "[]" and k = "[]" and patched = workerEntry] 1
    by simp
  have tr3: "trim '' agent:main:main '' = ''agent:main:main''"
    by code_simp
  have ap: "applyPatch exampleEnv (patchOf ''agent:main:subagent:worker'' (Val '' agent:main:main ''))
      ''agent:main:subagent:worker'' (Some workerEntry) = Inr (workerEntry\<lparr>updatedAt := Some 2000\<rparr>)"
    by (simp add: applyPatch_def patchOf_def patchSpawnedByStep_def patchLevelStep_def
        patchPolicyStep_def patchModelStep_def andThen_def initialNext_def tr3 example_subagent
        truthy_def Let_def)
      (simp add: workerEntry_def exampleEnv_def)
  have 5: "snd (sessionsPatch exampleEnv (patchOf ''agent:main:subagent:worker'' (Val '' agent:main:main ''))
        exampleStore) =
       Patched ''sessions.json'' ''agent:main:subagent:worker'' (workerEntry\<lparr>updatedAt := Some 2000\<rparr>)"
    using example_existing [unfolded existingEntry_def Let_def example_primary] v
    by (simp add: sessionsPatch_def Let_def example_key example_primary ap)
      (simp add: exampleEnv_def)
  have 6: "spawnedBy (workerEntry\<lparr>updatedAt := Some 2000\<rparr>) = Some ''agent:main:main''"
    using sessionsPatch_spawnedBy_write_once [where env = exampleEnv and disk = exampleStore
        and p = "patchOf ''agent:main:subagent:worker'' (Val '' agent:main:main '')"
        and e = workerEntry and path = "''sessions.json''" and k = "''agent:main:subagent:worker''"
        and patched = "workerEntry\<lparr>updatedAt := Some 2000\<rparr>" and raw = "[]"
        and c = INVALID_REQUEST and m = "[]"]
      5 t example_existing
    by (simp add: example_key) (simp add: workerEntry_def)
  from 1 2 3 4 5 6 show ?thesis by blast
qed

theorem sessionsReset_entry_witness:
  "\<exists>next. snd (sessionsReset exampleEnv \<lparr>resetKey = Some ''agent:main:subagent:worker''\<rparr> exampleStore) =
        ResetDone ''agent:main:subagent:worker'' next
      \<and> fst (sessionsReset exampleEnv \<lparr>resetKey = Some ''agent:main:subagent:worker''\<rparr> exampleStore)
          ''agent:main:subagent:worker'' = Some next
      \<and> sessionId next = ''uuid-2''
      \<and> resetEntry exampleEnv (Some (workerEntry\<lparr>sessionId := ''uuid-0''\<rparr>)) = next
      \<and> sendPolicy next = Some ''deny'' \<and> thinkingLevel next = Some ''high''
      \<and> skillsSnapshot next = Some ''skills''
      \<and> abortedLastRun next = Some False \<and> systemSent next = Some False"
proof -
  have k: "trim (orEmpty (resetKey \<lparr>resetKey = Some ''agent:main:subagent:worker''\<rparr>)) = ''agent:main:subagent:worker''"
    by (simp add: orEmpty_def trim_def isWhiteSpace_def)
  have v: "paramsValid exampleEnv" by (simp add: exampleEnv_def)
  have c: "canonicalKey (resolveGatewaySessionStoreTarget exampleEnv k) = k" for k
    by (simp add: exampleEnv_def)
  have u: "randomUUID exampleEnv = ''uuid-2''" by (simp add: exampleEnv_def)
  have w: "sendPolicy workerEntry = Some ''deny''"
    "thinkingLevel workerEntry = Some ''high''" "skillsSnapshot workerEntry = Some ''skills''"
    by (simp_all add: workerEntry_def)
  show ?thesis
    using sessionsReset_entry [where env = exampleEnv and disk = exampleStore and e = workerEntry
        and p = "\<lparr>resetKey = Some ''agent:main:subagent:worker''\<rparr>" and prior = "''uuid-0''"]
      v example_existing
    by (simp only: k c u w example_primary) auto
qed

text \<open>
  The claim as written fails when the draw repeats the prior id, which the handler does
  not look at: the stored entry has the id \<open>uuid-1\<close>, and so has the entry after a
  reset whose draw is \<open>uuid-1\<close>.
\<close>

theorem sessionsReset_same_id_counterexample:
  "map_option sessionId (exampleStore ''agent:main:subagent:worker'') = Some ''uuid-1''
   \<and> map_option sessionId
        (fst (sessionsReset (exampleEnv\<lparr>randomUUID := ''uuid-1''\<rparr>)
                \<lparr>resetKey = Some ''agent:main:subagent:worker''\<rparr> exampleStore)
           ''agent:main:subagent:worker'') = Some ''uuid-1''"
proof -
  have k: "trim (orEmpty (Some ''agent:main:subagent:worker'')) = ''agent:main:subagent:worker''"
    by (simp add: orEmpty_def trim_def isWhiteSpace_def)
  have v: "paramsValid exampleEnv"
    by (simp add: exampleEnv_def)
  have s: "map_option sessionId (exampleStore ''agent:main:subagent:worker'') = Some ''uuid-1''"
    by (simp add: exampleStore_def workerEntry_def)
  have r: "map_option sessionId
        (fst (sessionsReset (exampleEnv\<lparr>randomUUID := ''uuid-1''\<rparr>)
                \<lparr>resetKey = Some ''agent:main:subagent:worker''\<rparr> exampleStore)
           ''agent:main:subagent:worker'') = Some ''uuid-1''"
    using v by (simp add: sessionsReset_def Let_def k example_primary resetEntry_def)
  from s r show ?thesis by blast
qed

section \<open>Block reply timeout\<close>









section \<open>Binding precedence\<close>

lemma find_by_filter: "find P xs = (case filter P xs of [] \<Rightarrow> None | x # ys \<Rightarrow> Some x)"
  by (induction xs) simp_all

lemma find_exists: "(\<exists>x \<in> set xs. P x) \<longleftrightarrow> (\<exists>x. find P xs = Some x)"
  by (induction xs) auto

lemma find_none: "\<not> (\<exists>x \<in> set xs. P x) \<longleftrightarrow> find P xs = None"
  by (auto simp: find_None_iff)

lemma chooseRoute_fields:
  "routeAgentId (chooseRoute config ev agent by) = agent"
  "matchedBy (chooseRoute config ev agent by) = by"
  by (simp_all add: chooseRoute_def)

lemma resolve_peer:
  "find (matchesPeerTier ev) (bindings config) = Some b \<Longrightarrow>
   resolveAgentRoute config ev = chooseRoute config ev (bindingAgentId b) binding_peer"
  by (simp add: resolveAgentRoute_def)

lemma resolve_guild:
  "find (matchesPeerTier ev) (bindings config) = None \<Longrightarrow>
   find (matchesGuildTier ev) (bindings config) = Some b \<Longrightarrow>
   resolveAgentRoute config ev = chooseRoute config ev (bindingAgentId b) binding_guild"
  by (simp add: resolveAgentRoute_def)

lemma resolve_account:
  "find (matchesPeerTier ev) (bindings config) = None \<Longrightarrow>
   find (matchesGuildTier ev) (bindings config) = None \<Longrightarrow>
   find (matchesAccountTier ev) (bindings config) = Some b \<Longrightarrow>
   resolveAgentRoute config ev = chooseRoute config ev (bindingAgentId b) binding_account"
  by (simp add: resolveAgentRoute_def)

lemma resolve_lower:
  "find (matchesPeerTier ev) (bindings config) = None \<Longrightarrow>
   find (matchesGuildTier ev) (bindings config) = None \<Longrightarrow>
   find (matchesAccountTier ev) (bindings config) = None \<Longrightarrow>
   matchedBy (resolveAgentRoute config ev) = binding_channel
   \<or> matchedBy (resolveAgentRoute config ev) = default_route"
  by (simp add: resolveAgentRoute_def chooseRoute_fields split: option.splits)

lemma resolve_order:
  assumes "filter (matchesPeerTier ev) bs' = filter (matchesPeerTier ev) (bindings config)"
    and "filter (matchesGuildTier ev) bs' = filter (matchesGuildTier ev) (bindings config)"
    and "filter (matchesAccountTier ev) bs' = filter (matchesAccountTier ev) (bindings config)"
    and "filter (matchesChannelTier ev) bs' = filter (matchesChannelTier ev) (bindings config)"
  shows "resolveAgentRoute (config\<lparr>bindings := bs'\<rparr>) ev = resolveAgentRoute config ev"
proof -
  have c: "chooseRoute (config\<lparr>bindings := bs'\<rparr>) ev a m = chooseRoute config ev a m" for a m
    by (simp add: chooseRoute_def)
  have f: "find P bs' = find P (bindings config)"
    if "filter P bs' = filter P (bindings config)" for P
    using that by (simp add: find_by_filter)
  have b: "bindings (config\<lparr>bindings := bs'\<rparr>) = bs'"
    by simp
  have d: "defaultAgentId (config\<lparr>bindings := bs'\<rparr>) = defaultAgentId config"
    by simp
  show ?thesis
    unfolding resolveAgentRoute_def b
    by (simp only: f [OF assms(1)] f [OF assms(2)] f [OF assms(3)] f [OF assms(4)] c d)
qed

text \<open>
  Claim C2. A binding of the peer tier anywhere in the list is selected, the first of its
  tier in declaration order, and reported as \<open>binding.peer\<close>; without one, the first
  binding of the guild tier is selected and reported as \<open>binding.guild\<close>; without
  either, the first binding of the account tier, reported as \<open>binding.account\<close>.
  \<open>matchedBy\<close> names one of these tiers only when a binding of that tier matches.
  Two binding lists that agree on the order within each tier give the same route.
\<close>

theorem resolveAgentRoute_precedence:
  "((\<exists>b \<in> set (bindings config). matchesPeerTier ev b) \<longrightarrow>
      matchedBy (resolveAgentRoute config ev) = binding_peer
      \<and> map_option bindingAgentId (find (matchesPeerTier ev) (bindings config))
          = Some (routeAgentId (resolveAgentRoute config ev)))
   \<and> (\<not> (\<exists>b \<in> set (bindings config). matchesPeerTier ev b)
      \<and> (\<exists>b \<in> set (bindings config). matchesGuildTier ev b) \<longrightarrow>
      matchedBy (resolveAgentRoute config ev) = binding_guild
      \<and> map_option bindingAgentId (find (matchesGuildTier ev) (bindings config))
          = Some (routeAgentId (resolveAgentRoute config ev)))
   \<and> (\<not> (\<exists>b \<in> set (bindings config). matchesPeerTier ev b)
      \<and> \<not> (\<exists>b \<in> set (bindings config). matchesGuildTier ev b)
      \<and> (\<exists>b \<in> set (bindings config). matchesAccountTier ev b) \<longrightarrow>
      matchedBy (resolveAgentRoute config ev) = binding_account
      \<and> map_option bindingAgentId (find (matchesAccountTier ev) (bindings config))
          = Some (routeAgentId (resolveAgentRoute config ev)))
   \<and> (matchedBy (resolveAgentRoute config ev) = binding_peer \<longrightarrow>
        (\<exists>b \<in> set (bindings config). matchesPeerTier ev b))
   \<and> (matchedBy (resolveAgentRoute config ev) = binding_guild \<longrightarrow>
        (\<exists>b \<in> set (bindings config). matchesGuildTier ev b))
   \<and> (matchedBy (resolveAgentRoute config ev) = binding_account \<longrightarrow>
        (\<exists>b \<in> set (bindings config). matchesAccountTier ev b))
   \<and> (filter (matchesPeerTier ev) bs' = filter (matchesPeerTier ev) (bindings config)
      \<and> filter (matchesGuildTier ev) bs' = filter (matchesGuildTier ev) (bindings config)
      \<and> filter (matchesAccountTier ev) bs' = filter (matchesAccountTier ev) (bindings config)
      \<and> filter (matchesChannelTier ev) bs' = filter (matchesChannelTier ev) (bindings config) \<longrightarrow>
      resolveAgentRoute (config\<lparr>bindings := bs'\<rparr>) ev = resolveAgentRoute config ev)"
proof (intro conjI impI)
  assume "\<exists>b \<in> set (bindings config). matchesPeerTier ev b"
  then obtain b where b: "find (matchesPeerTier ev) (bindings config) = Some b"
    by (auto simp: find_exists)
  show "matchedBy (resolveAgentRoute config ev) = binding_peer"
    by (simp add: resolve_peer [OF b] chooseRoute_fields)
  show "map_option bindingAgentId (find (matchesPeerTier ev) (bindings config))
          = Some (routeAgentId (resolveAgentRoute config ev))"
    by (simp add: resolve_peer [OF b] chooseRoute_fields b)
next
  assume h: "\<not> (\<exists>b \<in> set (bindings config). matchesPeerTier ev b)
      \<and> (\<exists>b \<in> set (bindings config). matchesGuildTier ev b)"
  then have n: "find (matchesPeerTier ev) (bindings config) = None"
    by (auto simp: find_None_iff)
  from h obtain b where b: "find (matchesGuildTier ev) (bindings config) = Some b"
    by (auto simp: find_exists)
  show "matchedBy (resolveAgentRoute config ev) = binding_guild"
    by (simp add: resolve_guild [OF n b] chooseRoute_fields)
  show "map_option bindingAgentId (find (matchesGuildTier ev) (bindings config))
          = Some (routeAgentId (resolveAgentRoute config ev))"
    by (simp add: resolve_guild [OF n b] chooseRoute_fields b)
next
  assume h: "\<not> (\<exists>b \<in> set (bindings config). matchesPeerTier ev b)
      \<and> \<not> (\<exists>b \<in> set (bindings config). matchesGuildTier ev b)
      \<and> (\<exists>b \<in> set (bindings config). matchesAccountTier ev b)"
  then have n: "find (matchesPeerTier ev) (bindings config) = None"
    and g: "find (matchesGuildTier ev) (bindings config) = None"
    by (auto simp: find_None_iff)
  from h obtain b where b: "find (matchesAccountTier ev) (bindings config) = Some b"
    by (auto simp: find_exists)
  show "matchedBy (resolveAgentRoute config ev) = binding_account"
    by (simp add: resolve_account [OF n g b] chooseRoute_fields)
  show "map_option bindingAgentId (find (matchesAccountTier ev) (bindings config))
          = Some (routeAgentId (resolveAgentRoute config ev))"
    by (simp add: resolve_account [OF n g b] chooseRoute_fields b)
next
  assume "matchedBy (resolveAgentRoute config ev) = binding_peer"
  then have "find (matchesPeerTier ev) (bindings config) \<noteq> None"
    by (auto simp: resolveAgentRoute_def chooseRoute_fields split: option.splits)
  then show "\<exists>b \<in> set (bindings config). matchesPeerTier ev b"
    by (auto simp: find_None_iff)
next
  assume "matchedBy (resolveAgentRoute config ev) = binding_guild"
  then have "find (matchesGuildTier ev) (bindings config) \<noteq> None"
    by (auto simp: resolveAgentRoute_def chooseRoute_fields split: option.splits)
  then show "\<exists>b \<in> set (bindings config). matchesGuildTier ev b"
    by (auto simp: find_None_iff)
next
  assume "matchedBy (resolveAgentRoute config ev) = binding_account"
  then have "find (matchesAccountTier ev) (bindings config) \<noteq> None"
    by (auto simp: resolveAgentRoute_def chooseRoute_fields split: option.splits)
  then show "\<exists>b \<in> set (bindings config). matchesAccountTier ev b"
    by (auto simp: find_None_iff)
next
  assume "filter (matchesPeerTier ev) bs' = filter (matchesPeerTier ev) (bindings config)
      \<and> filter (matchesGuildTier ev) bs' = filter (matchesGuildTier ev) (bindings config)
      \<and> filter (matchesAccountTier ev) bs' = filter (matchesAccountTier ev) (bindings config)
      \<and> filter (matchesChannelTier ev) bs' = filter (matchesChannelTier ev) (bindings config)"
  then show "resolveAgentRoute (config\<lparr>bindings := bs'\<rparr>) ev = resolveAgentRoute config ev"
    using resolve_order by blast
qed

text \<open>The expectations of \<open>resolve-route.test.ts\<close> hold in the model.\<close>

lemma resolveAgentRoute_tests:
  "resolveAgentRoute (configWith [])
      \<lparr>inChannel = ''whatsapp'', inAccountId = None,
       inPeer = \<lparr>kind = Dm, ident = ''+15551234567''\<rparr>, inGuildId = None\<rparr>
    = \<lparr>routeAgentId = ''main'', routeAccountId = ''default'',
       routeSessionKey = ''agent:main:main'', matchedBy = default_route\<rparr>"
  "routeSessionKey (resolveAgentRoute ((configWith [])\<lparr>sessionDmScope := Some PerPeer\<rparr>)
      \<lparr>inChannel = ''whatsapp'', inAccountId = None,
       inPeer = \<lparr>kind = Dm, ident = ''+15551234567''\<rparr>, inGuildId = None\<rparr>)
    = ''agent:main:dm:+15551234567''"
  "routeSessionKey (resolveAgentRoute ((configWith [])\<lparr>sessionDmScope := Some PerChannelPeer\<rparr>)
      \<lparr>inChannel = ''whatsapp'', inAccountId = None,
       inPeer = \<lparr>kind = Dm, ident = ''+15551234567''\<rparr>, inGuildId = None\<rparr>)
    = ''agent:main:whatsapp:dm:+15551234567''"
  "resolveAgentRoute
      (configWith [bindingFor ''a'' ''whatsapp'' (Some ''biz'') (Some \<lparr>kind = Dm, ident = ''+1000''\<rparr>) None,
                   bindingFor ''b'' ''whatsapp'' (Some ''biz'') None None])
      \<lparr>inChannel = ''whatsapp'', inAccountId = Some ''biz'',
       inPeer = \<lparr>kind = Dm, ident = ''+1000''\<rparr>, inGuildId = None\<rparr>
    = \<lparr>routeAgentId = ''a'', routeAccountId = ''biz'',
       routeSessionKey = ''agent:a:main'', matchedBy = binding_peer\<rparr>"
  "resolveAgentRoute (configWith [chanBinding, guildBinding]) discordEvent
    = \<lparr>routeAgentId = ''chan'', routeAccountId = ''default'',
       routeSessionKey = ''agent:chan:discord:channel:c1'', matchedBy = binding_peer\<rparr>"
  "matchedBy (resolveAgentRoute (configWith [guildBinding, acctBinding]) discordEvent) = binding_guild"
  "matchedBy (resolveAgentRoute (configWith [bindingFor ''defaultAcct'' ''whatsapp'' None None None])
      \<lparr>inChannel = ''whatsapp'', inAccountId = None,
       inPeer = \<lparr>kind = Dm, ident = ''+1000''\<rparr>, inGuildId = None\<rparr>) = binding_account"
  "routeAgentId (resolveAgentRoute (configWith [bindingFor ''defaultAcct'' ''whatsapp'' None None None])
      \<lparr>inChannel = ''whatsapp'', inAccountId = Some ''biz'',
       inPeer = \<lparr>kind = Dm, ident = ''+1000''\<rparr>, inGuildId = None\<rparr>) = ''main''"
  "matchedBy (resolveAgentRoute (configWith [bindingFor ''any'' ''whatsapp'' (Some ''*'') None None])
      \<lparr>inChannel = ''whatsapp'', inAccountId = Some ''biz'',
       inPeer = \<lparr>kind = Dm, ident = ''+1000''\<rparr>, inGuildId = None\<rparr>) = binding_channel"
  "routeSessionKey (resolveAgentRoute ((configWith [])\<lparr>defaultAgentId := Some ''home''\<rparr>)
      \<lparr>inChannel = ''whatsapp'', inAccountId = Some ''biz'',
       inPeer = \<lparr>kind = Dm, ident = ''+1000''\<rparr>, inGuildId = None\<rparr>) = ''agent:home:main''"
  by code_simp+

lemma tiers_chan:
  "matchesPeerTier discordEvent chanBinding" "\<not> matchesGuildTier discordEvent chanBinding"
  "\<not> matchesAccountTier discordEvent chanBinding" "\<not> matchesChannelTier discordEvent chanBinding"
  by code_simp+

lemma tiers_guild:
  "\<not> matchesPeerTier discordEvent guildBinding" "matchesGuildTier discordEvent guildBinding"
  "\<not> matchesAccountTier discordEvent guildBinding" "\<not> matchesChannelTier discordEvent guildBinding"
  by code_simp+

lemma tiers_acct:
  "\<not> matchesPeerTier discordEvent acctBinding" "\<not> matchesGuildTier discordEvent acctBinding"
  "matchesAccountTier discordEvent acctBinding" "\<not> matchesChannelTier discordEvent acctBinding"
  by code_simp+

theorem resolveAgentRoute_precedence_witness:
  "matchedBy (resolveAgentRoute (configWith [acctBinding, guildBinding, chanBinding]) discordEvent) = binding_peer
   \<and> routeAgentId (resolveAgentRoute (configWith [acctBinding, guildBinding, chanBinding]) discordEvent) = ''chan''
   \<and> resolveAgentRoute (configWith [chanBinding, guildBinding, acctBinding]) discordEvent
       = resolveAgentRoute (configWith [acctBinding, guildBinding, chanBinding]) discordEvent
   \<and> matchedBy (resolveAgentRoute (configWith [acctBinding, guildBinding]) discordEvent) = binding_guild
   \<and> routeAgentId (resolveAgentRoute (configWith [acctBinding, guildBinding]) discordEvent) = ''guild''
   \<and> matchedBy (resolveAgentRoute (configWith [acctBinding]) discordEvent) = binding_account
   \<and> routeAgentId (resolveAgentRoute (configWith [acctBinding]) discordEvent) = ''acct''"
proof -
  have b: "bindings (configWith bs) = bs" for bs
    by (simp add: configWith_def)
  have u: "(configWith bs)\<lparr>bindings := bs'\<rparr> = configWith bs'" for bs bs'
    by (simp add: configWith_def)
  have a: "bindingAgentId chanBinding = ''chan''" "bindingAgentId guildBinding = ''guild''"
    "bindingAgentId acctBinding = ''acct''"
    by (simp_all add: chanBinding_def guildBinding_def acctBinding_def bindingFor_def)
  note t = tiers_chan tiers_guild tiers_acct
  have 1: "matchedBy (resolveAgentRoute (configWith [acctBinding, guildBinding, chanBinding]) discordEvent) = binding_peer
      \<and> routeAgentId (resolveAgentRoute (configWith [acctBinding, guildBinding, chanBinding]) discordEvent) = ''chan''"
    using resolveAgentRoute_precedence [where config = "configWith [acctBinding, guildBinding, chanBinding]"
        and ev = discordEvent and bs' = "[]"]
    by (simp add: b t a)
  have 2: "resolveAgentRoute (configWith [chanBinding, guildBinding, acctBinding]) discordEvent
       = resolveAgentRoute (configWith [acctBinding, guildBinding, chanBinding]) discordEvent"
    using resolveAgentRoute_precedence [where config = "configWith [acctBinding, guildBinding, chanBinding]"
        and ev = discordEvent and bs' = "[chanBinding, guildBinding, acctBinding]"]
    by (simp add: b t u)
  have 3: "matchedBy (resolveAgentRoute (configWith [acctBinding, guildBinding]) discordEvent) = binding_guild
      \<and> routeAgentId (resolveAgentRoute (configWith [acctBinding, guildBinding]) discordEvent) = ''guild''"
    using resolveAgentRoute_precedence [where config = "configWith [acctBinding, guildBinding]"
        and ev = discordEvent and bs' = "[]"]
    by (simp add: b t a)
  have 4: "matchedBy (resolveAgentRoute (configWith [acctBinding]) discordEvent) = binding_account
      \<and> routeAgentId (resolveAgentRoute (configWith [acctBinding]) discordEvent) = ''acct''"
    using resolveAgentRoute_precedence [where config = "configWith [acctBinding]"
        and ev = discordEvent and bs' = "[]"]
    by (simp add: b t a)
  from 1 2 3 4 show ?thesis by blast
qed

end
